theory Spec2Isabelle
  imports Main "HOL-Library.AList" "HOL-Library.While_Combinator"
begin

section \<open>Values and exceptions of the script\<close>

text \<open>
  The values \<open>json.loads\<close> hands to the script. A Python \<open>dict\<close> keeps its keys in
  insertion order and holds each key once; it is an association list read with
  \<open>map_of\<close>. JSON \<open>null\<close> and Python \<open>None\<close> are the same value, \<open>JNull\<close>. A float
  is kept as the numeral text it was read from: the script never computes with one.
\<close>

datatype json =
    JNull
  | JBool bool
  | JInt int
  | JFloat string
  | JStr string
  | JList "json list"
  | JDict "(string \<times> json) list"

text \<open>
  The exceptions the script tells apart. Everything else that derives from Python's
  \<open>Exception\<close> (a permission error, a decoding error of the file, a transport
  error of the client, \<open>BulkIndexError\<close>, \<open>RecursionError\<close>, ...) is
  \<open>OtherException\<close>. \<open>SystemExit\<close> is not an \<open>Exception\<close>: it is the
  outcome \<open>Exited\<close> below.
\<close>

datatype py_exception =
    FileNotFoundError
  | JSONDecodeError
  | AttributeError
  | OtherException

text \<open>How a call ends: it returns a value, an exception leaves it, or \<open>sys.exit\<close> was called.\<close>

datatype 'a outcome =
    Returned 'a
  | Raised py_exception
  | Exited nat

text \<open>
  What the script prints, one constructor per \<open>print\<close> statement, with the values its
  f-string shows (the text of an exception is not modelled).
\<close>

datatype message =
    Msg_mapping_read string
  | Msg_mapping_not_found string
  | Msg_mapping_invalid_json string
  | Msg_connected string
  | Msg_connect_failed
  | Msg_connect_error
  | Msg_index_exists string
  | Msg_index_deleted string
  | Msg_index_created string
  | Msg_index_failed
  | Msg_missing_document nat
  | Msg_invalid_json nat
  | Msg_parsed nat string
  | Msg_ndjson_not_found string
  | Msg_ndjson_error
  | Msg_no_documents string
  | Msg_bulk_failures nat
  | Msg_bulk_failure json
  | Msg_bulk_more nat
  | Msg_bulk_indexed nat
  | Msg_bulk_error
  | Msg_starting
  | Msg_no_host
  | Msg_host_example
  | Msg_no_key
  | Msg_key_example
  | Msg_connecting string
  | Msg_completed

text \<open>The record \<open>{'_index': ..., '_id': ..., '_source': ...}\<close> built for each pair.\<close>

record bulk_doc =
  doc_index :: json
  doc_id :: json
  doc_source :: json

text \<open>The handle \<open>Elasticsearch(hosts=[host], api_key=api_key, request_timeout=60)\<close>.\<close>

record client =
  client_host :: string
  client_api_key :: string
  client_request_timeout :: nat

text \<open>The calls the script makes on the client library, with their arguments.\<close>

datatype request =
    Req_construct string string nat
  | Req_ping
  | Req_exists string
  | Req_delete string
  | Req_create string json
  | Req_bulk "bulk_doc list" nat

text \<open>What an observer of a run sees, in order: lines printed and calls on the library.\<close>

datatype event =
    Print message
  | Call request

fun is_call :: "event \<Rightarrow> bool" where
  "is_call (Call r) = True"
| "is_call (Print m) = False"

type_synonym decoder = "string \<Rightarrow> py_exception + json"

type_synonym file_system = "string \<Rightarrow> py_exception + string"

section \<open>Python library functions the script calls\<close>

text \<open>
  \<open>str.isspace\<close> on the code points below 256: TAB to CR, FS to US, the space, NEL and
  the no-break space.
\<close>

definition py_isspace :: "char \<Rightarrow> bool" where
  "py_isspace c =
     (c \<in> set [CHR 0x09, CHR 0x0A, CHR 0x0B, CHR 0x0C, CHR 0x0D,
                CHR 0x1C, CHR 0x1D, CHR 0x1E, CHR 0x1F, CHR 0x20, CHR 0x85, CHR 0xA0])"

definition strip :: "string \<Rightarrow> string" where
  "strip s = rev (dropWhile py_isspace (rev (dropWhile py_isspace s)))"

text \<open>
  A file opened with \<open>open(filename, 'r')\<close> translates \<open>\r\n\<close> and \<open>\r\<close> to \<open>\n\<close>;
  \<open>readlines\<close> cuts the text after every \<open>\n\<close> and keeps it on the line.
\<close>

fun universal_newlines :: "string \<Rightarrow> string" where
  "universal_newlines [] = []"
| "universal_newlines [c] = (if c = CHR 0x0D then [CHR 0x0A] else [c])"
| "universal_newlines (c # d # cs) =
     (if c = CHR 0x0D then
        (if d = CHR 0x0A then CHR 0x0A # universal_newlines cs
         else CHR 0x0A # universal_newlines (d # cs))
      else c # universal_newlines (d # cs))"

fun split_lines :: "string \<Rightarrow> string \<Rightarrow> string list" where
  "split_lines cur [] = (if cur = [] then [] else [cur])"
| "split_lines cur (c # cs) =
     (if c = CHR 0x0A then (cur @ [c]) # split_lines [] cs else split_lines (cur @ [c]) cs)"

definition readlines :: "string \<Rightarrow> string list" where
  "readlines text = split_lines [] (universal_newlines text)"

text \<open>
  \<open>d.get(key, default)\<close>: a lookup on a \<open>dict\<close>; on any other value the attribute
  \<open>get\<close> does not exist and Python raises \<open>AttributeError\<close>.
\<close>

fun py_get :: "json \<Rightarrow> string \<Rightarrow> json \<Rightarrow> py_exception + json" where
  "py_get (JDict kvs) k dflt = Inr (case map_of kvs k of None \<Rightarrow> dflt | Some v \<Rightarrow> v)"
| "py_get v k dflt = Inl AttributeError"

section \<open>A decoder for JSON texts\<close>

text \<open>
  \<open>json.loads\<close> is a parameter of the functions below (a \<open>decoder\<close>), so the theorems
  hold whatever it answers. For closed instances this section gives one decoder,
  written after the scanner of Python's \<open>json\<close> module: white space, \<open>null\<close>, \<open>true\<close>,
  \<open>false\<close>, \<open>NaN\<close>, \<open>Infinity\<close>, \<open>-Infinity\<close>, numbers, strings with the one-letter
  escapes, arrays, and objects in which the last value of a repeated key wins. It covers
  texts of code points below 256 without \<open>\u\<close> escapes; the recursion limit and the
  digit limit of \<open>int\<close> are not modelled.
\<close>

definition json_ws :: "char \<Rightarrow> bool" where
  "json_ws c = (c \<in> set [CHR 0x20, CHR 0x09, CHR 0x0A, CHR 0x0D])"

definition skip_ws :: "string \<Rightarrow> string" where
  "skip_ws s = dropWhile json_ws s"

definition is_digit :: "char \<Rightarrow> bool" where
  "is_digit c = (c \<in> set ''0123456789'')"

definition digits_value :: "string \<Rightarrow> int" where
  "digits_value ds = foldl (\<lambda>a c. 10 * a + (int (of_char c) - 48)) 0 ds"

definition unescape :: "char \<Rightarrow> char option" where
  "unescape c =
     (if c = CHR 0x22 \<or> c = CHR 0x5C \<or> c = CHR ''/'' then Some c
      else if c = CHR ''b'' then Some (CHR 0x08)
      else if c = CHR ''f'' then Some (CHR 0x0C)
      else if c = CHR ''n'' then Some (CHR 0x0A)
      else if c = CHR ''r'' then Some (CHR 0x0D)
      else if c = CHR ''t'' then Some (CHR 0x09)
      else None)"

text \<open>The characters of a string up to its closing quote, read after the opening one.\<close>

fun scan_string :: "string \<Rightarrow> string \<Rightarrow> (string \<times> string) option" where
  "scan_string acc [] = None"
| "scan_string acc (c # cs) =
     (if c = CHR 0x22 then Some (acc, cs)
      else if c = CHR 0x5C then
        (case cs of
           [] \<Rightarrow> None
         | e # r \<Rightarrow>
             (case unescape e of
                None \<Rightarrow> None
              | Some ch \<Rightarrow> scan_string (acc @ [ch]) r))
      else if (of_char c :: nat) < 0x20 then None
      else scan_string (acc @ [c]) cs)"

text \<open>A number: \<open>-?(0|[1-9][0-9]*)(\.[0-9]+)?([eE][-+]?[0-9]+)?\<close>.\<close>

definition scan_int_part :: "string \<Rightarrow> (string \<times> string) option" where
  "scan_int_part s =
     (case s of
        [] \<Rightarrow> None
      | c # cs \<Rightarrow>
          if c = CHR ''0'' then Some ([c], cs)
          else if is_digit c then Some (takeWhile is_digit s, dropWhile is_digit s)
          else None)"

definition scan_frac :: "string \<Rightarrow> string \<times> string" where
  "scan_frac s =
     (case s of
        [] \<Rightarrow> ([], s)
      | c # cs \<Rightarrow>
          if c = CHR ''.'' \<and> takeWhile is_digit cs \<noteq> []
          then (c # takeWhile is_digit cs, dropWhile is_digit cs)
          else ([], s))"

definition scan_sign :: "string \<Rightarrow> string \<times> string" where
  "scan_sign s =
     (case s of
        [] \<Rightarrow> ([], s)
      | c # cs \<Rightarrow> if c = CHR ''+'' \<or> c = CHR ''-'' then ([c], cs) else ([], s))"

definition scan_exp :: "string \<Rightarrow> string \<times> string" where
  "scan_exp s =
     (case s of
        [] \<Rightarrow> ([], s)
      | c # cs \<Rightarrow>
          if c = CHR ''e'' \<or> c = CHR ''E'' then
            (case scan_sign cs of
               (sg, r) \<Rightarrow>
                 if takeWhile is_digit r \<noteq> []
                 then (c # sg @ takeWhile is_digit r, dropWhile is_digit r)
                 else ([], s))
          else ([], s))"

definition scan_minus :: "string \<Rightarrow> string \<times> string" where
  "scan_minus s =
     (case s of
        [] \<Rightarrow> ([], s)
      | c # cs \<Rightarrow> if c = CHR ''-'' then ([c], cs) else ([], s))"

definition scan_number :: "string \<Rightarrow> (json \<times> string) option" where
  "scan_number s =
     (case scan_minus s of
        (sg, s1) \<Rightarrow>
          (case scan_int_part s1 of
             None \<Rightarrow> None
           | Some (ip, s2) \<Rightarrow>
               (case scan_frac s2 of
                  (fr, s3) \<Rightarrow>
                    (case scan_exp s3 of
                       (ex, s4) \<Rightarrow>
                         if fr = [] \<and> ex = []
                         then Some (JInt (if sg = [] then digits_value ip
                                          else - digits_value ip), s4)
                         else Some (JFloat (sg @ ip @ fr @ ex), s4)))))"

definition scan_constant :: "string \<Rightarrow> (json \<times> string) option" where
  "scan_constant s =
     (if take 3 s = ''NaN'' then Some (JFloat ''NaN'', drop 3 s)
      else if take 8 s = ''Infinity'' then Some (JFloat ''Infinity'', drop 8 s)
      else if take 9 s = ''-Infinity'' then Some (JFloat ''-Infinity'', drop 9 s)
      else None)"

text \<open>
  One value, the elements of an array after its bracket, and the members of an object
  after the quote that opens a key. The first argument bounds the number of nested
  calls; \<open>json_loads\<close> starts with more than any text needs.
\<close>

fun scan_value :: "nat \<Rightarrow> string \<Rightarrow> (json \<times> string) option"
  and scan_elements :: "nat \<Rightarrow> json list \<Rightarrow> string \<Rightarrow> (json list \<times> string) option"
  and scan_members ::
    "nat \<Rightarrow> (string \<times> json) list \<Rightarrow> string \<Rightarrow> ((string \<times> json) list \<times> string) option"
  where
  "scan_value 0 s = None"
| "scan_value (Suc n) s =
     (case s of
        [] \<Rightarrow> None
      | c # cs \<Rightarrow>
          if c = CHR 0x22 then
            (case scan_string [] cs of
               None \<Rightarrow> None
             | Some (str, r) \<Rightarrow> Some (JStr str, r))
          else if c = CHR ''{'' then
            (case skip_ws cs of
               [] \<Rightarrow> None
             | d # ds \<Rightarrow>
                 if d = CHR ''}'' then Some (JDict [], ds)
                 else if d = CHR 0x22 then
                   (case scan_members n [] ds of
                      None \<Rightarrow> None
                    | Some (kvs, r) \<Rightarrow> Some (JDict kvs, r))
                 else None)
          else if c = CHR ''['' then
            (case skip_ws cs of
               [] \<Rightarrow> None
             | d # ds \<Rightarrow>
                 if d = CHR '']'' then Some (JList [], ds)
                 else
                   (case scan_elements n [] (d # ds) of
                      None \<Rightarrow> None
                    | Some (vs, r) \<Rightarrow> Some (JList vs, r)))
          else if take 4 s = ''null'' then Some (JNull, drop 4 s)
          else if take 4 s = ''true'' then Some (JBool True, drop 4 s)
          else if take 5 s = ''false'' then Some (JBool False, drop 5 s)
          else
            (case scan_number s of
               Some r \<Rightarrow> Some r
             | None \<Rightarrow> scan_constant s))"
| "scan_elements 0 acc s = None"
| "scan_elements (Suc n) acc s =
     (case scan_value n s of
        None \<Rightarrow> None
      | Some (v, r) \<Rightarrow>
          (case skip_ws r of
             [] \<Rightarrow> None
           | d # ds \<Rightarrow>
               if d = CHR '']'' then Some (acc @ [v], ds)
               else if d = CHR '','' then scan_elements n (acc @ [v]) (skip_ws ds)
               else None))"
| "scan_members 0 acc s = None"
| "scan_members (Suc n) acc s =
     (case scan_string [] s of
        None \<Rightarrow> None
      | Some (k, r) \<Rightarrow>
          (case skip_ws r of
             [] \<Rightarrow> None
           | c # r1 \<Rightarrow>
               if c \<noteq> CHR '':'' then None
               else
                 (case scan_value n (skip_ws r1) of
                    None \<Rightarrow> None
                  | Some (v, r2) \<Rightarrow>
                      (case skip_ws r2 of
                         [] \<Rightarrow> None
                       | d # ds \<Rightarrow>
                           if d = CHR ''}'' then Some (AList.update k v acc, ds)
                           else if d = CHR '','' then
                             (case skip_ws ds of
                                [] \<Rightarrow> None
                              | q # qs \<Rightarrow>
                                  if q = CHR 0x22
                                  then scan_members n (AList.update k v acc) qs
                                  else None)
                           else None))))"

text \<open>The whole text is one value between white space; anything else is a decode error.\<close>

definition json_loads :: decoder where
  "json_loads s =
     (case scan_value (2 * length s + 2) (skip_ws s) of
        None \<Rightarrow> Inl JSONDecodeError
      | Some (v, r) \<Rightarrow> if skip_ws r = [] then Inr v else Inl JSONDecodeError)"

section \<open>Statements of the script as state transformers\<close>

text \<open>
  A piece of the script runs against the cluster (a state of type \<open>'c\<close>) and ends with
  an outcome, the cluster as it left it, and the events it caused, in order.
\<close>

type_synonym ('a, 'c) prog = "'c \<Rightarrow> 'a outcome \<times> 'c \<times> event list"

text \<open>\<open>return v\<close>, \<open>sys.exit(n)\<close>, \<open>raise e\<close> and \<open>print(...)\<close>.\<close>

definition returns :: "'a \<Rightarrow> ('a, 'c) prog" where
  "returns v c = (Returned v, c, [])"

definition exits :: "nat \<Rightarrow> ('a, 'c) prog" where
  "exits n c = (Exited n, c, [])"

definition raises :: "py_exception \<Rightarrow> ('a, 'c) prog" where
  "raises e c = (Raised e, c, [])"

definition say :: "message \<Rightarrow> (unit, 'c) prog" where
  "say m c = (Returned (), c, [Print m])"

text \<open>A value that a library function computes without the cluster, or its exception.\<close>

definition answer :: "py_exception + 'a \<Rightarrow> ('a, 'c) prog" where
  "answer r c = (case r of Inl e \<Rightarrow> (Raised e, c, []) | Inr v \<Rightarrow> (Returned v, c, []))"

text \<open>A call on the client library: it is recorded, and it answers or raises.\<close>

definition call :: "request \<Rightarrow> ('c \<Rightarrow> (py_exception + 'a) \<times> 'c) \<Rightarrow> ('a, 'c) prog" where
  "call req op c =
     (case op c of
        (Inl e, c') \<Rightarrow> (Raised e, c', [Call req])
      | (Inr v, c') \<Rightarrow> (Returned v, c', [Call req]))"

text \<open>Sequencing: the second statement runs only when the first one returned.\<close>

definition and_then :: "('a, 'c) prog \<Rightarrow> ('a \<Rightarrow> ('b, 'c) prog) \<Rightarrow> ('b, 'c) prog" where
  "and_then m k c =
     (case m c of
        (Returned v, c', ev) \<Rightarrow> (case k v c' of (r, c'', ev') \<Rightarrow> (r, c'', ev @ ev'))
      | (Raised e, c', ev) \<Rightarrow> (Raised e, c', ev)
      | (Exited n, c', ev) \<Rightarrow> (Exited n, c', ev))"

text \<open>
  \<open>try: body except Exception as e: handler\<close>. Every \<open>py_exception\<close> is an \<open>Exception\<close>;
  \<open>SystemExit\<close> passes through.
\<close>

definition try_except :: "('a, 'c) prog \<Rightarrow> (py_exception \<Rightarrow> ('a, 'c) prog) \<Rightarrow> ('a, 'c) prog" where
  "try_except body handler c =
     (case body c of
        (Raised e, c', ev) \<Rightarrow> (case handler e c' of (r, c'', ev') \<Rightarrow> (r, c'', ev @ ev'))
      | (Returned v, c', ev) \<Rightarrow> (Returned v, c', ev)
      | (Exited n, c', ev) \<Rightarrow> (Exited n, c', ev))"

text \<open>The exit status the operating system sees: an uncaught exception gives 1.\<close>

fun exit_status :: "'a outcome \<Rightarrow> nat" where
  "exit_status (Returned v) = 0"
| "exit_status (Exited n) = n"
| "exit_status (Raised e) = 1"

text \<open>
  The client library as the script uses it: the constructor (it answers \<open>None\<close> when
  it built the handle and the exception when it raised), \<open>es.ping()\<close>,
  \<open>es.indices.exists\<close>, \<open>es.indices.delete\<close>, \<open>es.indices.create\<close> and
  \<open>elasticsearch.helpers.bulk\<close> with its chunk size. Each is a parameter.
\<close>

record 'c es_api =
  construct :: "string \<Rightarrow> string \<Rightarrow> nat \<Rightarrow> py_exception option"
  ping :: "client \<Rightarrow> 'c \<Rightarrow> (py_exception + bool) \<times> 'c"
  indices_exists :: "client \<Rightarrow> string \<Rightarrow> 'c \<Rightarrow> (py_exception + bool) \<times> 'c"
  indices_delete :: "client \<Rightarrow> string \<Rightarrow> 'c \<Rightarrow> (py_exception + unit) \<times> 'c"
  indices_create :: "client \<Rightarrow> string \<Rightarrow> json \<Rightarrow> 'c \<Rightarrow> (py_exception + unit) \<times> 'c"
  helpers_bulk ::
    "client \<Rightarrow> bulk_doc list \<Rightarrow> nat \<Rightarrow> 'c \<Rightarrow> (py_exception + nat \<times> json list) \<times> 'c"

section \<open>read_mapping_file\<close>

text \<open>
  \<open>open\<close> and \<open>f.read()\<close> together: the text of the file, or the exception.
  \<open>json.load(f)\<close> decodes the text read with newline translation.
\<close>

definition read_mapping_file :: "file_system \<Rightarrow> decoder \<Rightarrow> string \<Rightarrow> (json, 'c) prog" where
  "read_mapping_file fs loads filename =
     try_except
       (and_then (answer (fs filename)) (\<lambda>text.
        and_then (answer (loads (universal_newlines text))) (\<lambda>mapping_data.
        and_then (say (Msg_mapping_read filename)) (\<lambda>_.
        returns mapping_data))))
       (\<lambda>e. if e = FileNotFoundError then
               and_then (say (Msg_mapping_not_found filename)) (\<lambda>_. exits 1)
             else if e = JSONDecodeError then
               and_then (say (Msg_mapping_invalid_json filename)) (\<lambda>_. exits 1)
             else raises e)"

section \<open>connect_to_elasticsearch\<close>

definition connect_to_elasticsearch ::
  "'c es_api \<Rightarrow> string \<Rightarrow> string \<Rightarrow> (client option, 'c) prog" where
  "connect_to_elasticsearch api host api_key =
     try_except
       (and_then
          (call (Req_construct host api_key 60)
             (\<lambda>c. (case construct api host api_key 60 of
                      Some e \<Rightarrow> Inl e
                    | None \<Rightarrow>
                        Inr \<lparr>client_host = host, client_api_key = api_key,
                             client_request_timeout = 60\<rparr>, c)))
          (\<lambda>es.
        and_then (call Req_ping (ping api es)) (\<lambda>alive.
        if alive then and_then (say (Msg_connected host)) (\<lambda>_. returns (Some es))
        else and_then (say Msg_connect_failed) (\<lambda>_. returns None))))
       (\<lambda>e. and_then (say Msg_connect_error) (\<lambda>_. returns None))"

section \<open>create_index\<close>

definition create_index :: "'c es_api \<Rightarrow> client \<Rightarrow> string \<Rightarrow> json \<Rightarrow> (bool, 'c) prog" where
  "create_index api es index_name mapping =
     try_except
       (and_then (call (Req_exists index_name) (indices_exists api es index_name)) (\<lambda>found.
        and_then
          (if found then
             and_then (say (Msg_index_exists index_name)) (\<lambda>_.
             and_then (call (Req_delete index_name) (indices_delete api es index_name)) (\<lambda>_.
             say (Msg_index_deleted index_name)))
           else returns ())
          (\<lambda>_.
        and_then
          (call (Req_create index_name mapping) (indices_create api es index_name mapping))
          (\<lambda>_.
        and_then (say (Msg_index_created index_name)) (\<lambda>_.
        returns True)))))
       (\<lambda>e. and_then (say Msg_index_failed) (\<lambda>_. returns False))"

section \<open>parse_ndjson_for_bulk\<close>

text \<open>
  The variables of the \<open>while\<close> loop: the line cursor \<open>i\<close>, the list \<open>documents\<close>, what
  has been printed, and the exception that left the loop body, if one did.
\<close>

record loop_state =
  cursor :: nat
  documents :: "bulk_doc list"
  printed :: "event list"
  raised :: "py_exception option"

text \<open>
  \<open>except json.JSONDecodeError\<close> inside the loop: a warning with the 1-based number of
  line \<open>i\<close> and \<open>i += 1\<close>. Any other exception leaves the loop for the handlers around it.
\<close>

definition loop_except :: "py_exception \<Rightarrow> loop_state \<Rightarrow> loop_state" where
  "loop_except e s =
     (if e = JSONDecodeError then
        s\<lparr>printed := printed s @ [Print (Msg_invalid_json (cursor s + 1))],
          cursor := cursor s + 1\<rparr>
      else s\<lparr>raised := Some e\<rparr>)"

text \<open>One iteration of the loop, entered with \<open>i < len(lines)\<close>.\<close>

definition loop_body :: "decoder \<Rightarrow> string list \<Rightarrow> loop_state \<Rightarrow> loop_state" where
  "loop_body loads lines s =
     (let i = cursor s in
      if strip (lines ! i) = [] then s\<lparr>cursor := i + 1\<rparr>
      else
        (case loads (strip (lines ! i)) of
           Inl e \<Rightarrow> loop_except e s
         | Inr index_action \<Rightarrow>
             if i + 1 < length lines then
               (case loads (strip (lines ! (i + 1))) of
                  Inl e \<Rightarrow> loop_except e s
                | Inr doc_data \<Rightarrow>
                    (case py_get index_action ''index'' (JDict []) of
                       Inl e \<Rightarrow> loop_except e s
                     | Inr index_info \<Rightarrow>
                         (case py_get index_info ''_index'' JNull of
                            Inl e \<Rightarrow> loop_except e s
                          | Inr target \<Rightarrow>
                              (case py_get index_info ''_id'' JNull of
                                 Inl e \<Rightarrow> loop_except e s
                               | Inr ident \<Rightarrow>
                                   s\<lparr>documents := documents s @
                                        [\<lparr>doc_index = target, doc_id = ident,
                                          doc_source = doc_data\<rparr>],
                                     cursor := i + 2\<rparr>))))
             else
               s\<lparr>printed := printed s @ [Print (Msg_missing_document (i + 1))],
                 cursor := i + 1\<rparr>))"

text \<open>The loop runs while \<open>i < len(lines)\<close> and no exception has left its body.\<close>

definition loop_running :: "string list \<Rightarrow> loop_state \<Rightarrow> bool" where
  "loop_running lines s = (raised s = None \<and> cursor s < length lines)"

function parse_loop :: "decoder \<Rightarrow> string list \<Rightarrow> loop_state \<Rightarrow> loop_state" where
  "parse_loop loads lines s =
     (if loop_running lines s then parse_loop loads lines (loop_body loads lines s) else s)"
  by pat_completeness auto

termination
proof (relation "measure (\<lambda>(loads, lines, s).
         if raised s = None then Suc (length lines - cursor s) else 0)")
  show "wf (measure (\<lambda>(loads, lines, s).
         if raised s = None then Suc (length lines - cursor s) else 0))"
    by simp
next
  fix loads :: decoder and lines :: "string list" and s :: loop_state
  assume run: "loop_running lines s"
  have "raised (loop_body loads lines s) \<noteq> None \<or>
        (cursor s < cursor (loop_body loads lines s) \<and>
         raised (loop_body loads lines s) = None)"
    using run
    by (auto simp: loop_running_def loop_body_def loop_except_def Let_def
          split: sum.splits)
  with run show "((loads, lines, loop_body loads lines s), (loads, lines, s))
        \<in> measure (\<lambda>(loads, lines, s).
             if raised s = None then Suc (length lines - cursor s) else 0)"
    by (auto simp: loop_running_def)
qed

declare parse_loop.simps [simp del]

definition loop_start :: loop_state where
  "loop_start = \<lparr>cursor = 0, documents = [], printed = [], raised = None\<rparr>"

text \<open>The loop as a statement: its prints, and its documents or the exception.\<close>

definition run_loop :: "decoder \<Rightarrow> string list \<Rightarrow> (bulk_doc list, 'c) prog" where
  "run_loop loads lines c =
     (let s = parse_loop loads lines loop_start in
      (case raised s of Some e \<Rightarrow> Raised e | None \<Rightarrow> Returned (documents s), c, printed s))"

text \<open>
  The function: read the lines, run the loop, print the count and return the documents;
  \<open>except FileNotFoundError\<close> and \<open>except Exception\<close> print and return \<open>None\<close>.
\<close>

definition parse_ndjson_for_bulk ::
  "file_system \<Rightarrow> decoder \<Rightarrow> string \<Rightarrow> (bulk_doc list option, 'c) prog" where
  "parse_ndjson_for_bulk fs loads filename =
     try_except
       (and_then (answer (fs filename)) (\<lambda>text.
        and_then (run_loop loads (readlines text)) (\<lambda>docs.
        and_then (say (Msg_parsed (length docs) filename)) (\<lambda>_.
        returns (Some docs)))))
       (\<lambda>e. if e = FileNotFoundError then
               and_then (say (Msg_ndjson_not_found filename)) (\<lambda>_. returns None)
             else and_then (say Msg_ndjson_error) (\<lambda>_. returns None))"

section \<open>bulk_index_documents\<close>

text \<open>What is printed about the failed items: their number, the first five, the rest.\<close>

definition report_failures :: "json list \<Rightarrow> (unit, 'c) prog" where
  "report_failures failed_items =
     (if failed_items \<noteq> [] then
        and_then (say (Msg_bulk_failures (length failed_items))) (\<lambda>_.
        and_then
          (\<lambda>c. (Returned (), c, map (\<lambda>failure. Print (Msg_bulk_failure failure))
                                 (take 5 failed_items)))
          (\<lambda>_.
        if length failed_items > 5 then say (Msg_bulk_more (length failed_items - 5))
        else returns ()))
      else returns ())"

definition bulk_index_documents ::
  "'c es_api \<Rightarrow> client \<Rightarrow> file_system \<Rightarrow> decoder \<Rightarrow> string \<Rightarrow> (bool, 'c) prog" where
  "bulk_index_documents api es fs loads filename =
     and_then (parse_ndjson_for_bulk fs loads filename) (\<lambda>parsed.
     case parsed of
       None \<Rightarrow> returns False
     | Some docs \<Rightarrow>
         if docs = [] then
           and_then (say (Msg_no_documents filename)) (\<lambda>_. returns False)
         else
           try_except
             (and_then (call (Req_bulk docs 1000) (helpers_bulk api es docs 1000))
                (\<lambda>(success_count, failed_items).
              and_then (report_failures failed_items) (\<lambda>_.
              and_then (say (Msg_bulk_indexed success_count)) (\<lambda>_.
              returns True))))
             (\<lambda>e. and_then (say Msg_bulk_error) (\<lambda>_. returns False)))"

section \<open>main\<close>

text \<open>\<open>if not value\<close> on what \<open>os.getenv\<close> answered: unset, or the empty string.\<close>

definition unset :: "string option \<Rightarrow> bool" where
  "unset v = (case v of None \<Rightarrow> True | Some s \<Rightarrow> s = [])"

definition mapping_path :: string where
  "mapping_path = ''index_mappings/ubi_events-mappings.json''"

definition ndjson_path :: string where
  "ndjson_path = ''sample_documents/bulk_index.ndjson''"

definition main ::
  "'c es_api \<Rightarrow> file_system \<Rightarrow> decoder \<Rightarrow> (string \<Rightarrow> string option) \<Rightarrow> (unit, 'c) prog" where
  "main api fs loads getenv =
     and_then (say Msg_starting) (\<lambda>_.
     case (getenv ''ES_HOST'', getenv ''API_KEY'') of (es_host, api_key) \<Rightarrow>
     if unset es_host then
       and_then (say Msg_no_host) (\<lambda>_. and_then (say Msg_host_example) (\<lambda>_. exits 1))
     else if unset api_key then
       and_then (say Msg_no_key) (\<lambda>_. and_then (say Msg_key_example) (\<lambda>_. exits 1))
     else
       and_then (say (Msg_connecting (case es_host of Some h \<Rightarrow> h | None \<Rightarrow> []))) (\<lambda>_.
       and_then
         (connect_to_elasticsearch api
            (case es_host of Some h \<Rightarrow> h | None \<Rightarrow> [])
            (case api_key of Some k \<Rightarrow> k | None \<Rightarrow> []))
         (\<lambda>connected.
       case connected of
         None \<Rightarrow> exits 1
       | Some es \<Rightarrow>
           and_then (read_mapping_file fs loads mapping_path) (\<lambda>_.
           and_then (read_mapping_file fs loads mapping_path) (\<lambda>ubi_queries_mapping.
           and_then (create_index api es ''ubi_events'' ubi_queries_mapping) (\<lambda>created.
           if \<not> created then exits 1
           else
             and_then (create_index api es ''ubi_queries'' ubi_queries_mapping) (\<lambda>created.
             if \<not> created then exits 1
             else
               and_then (bulk_index_documents api es fs loads ndjson_path) (\<lambda>indexed.
               if \<not> indexed then exits 1
               else say Msg_completed))))))))"

section \<open>Vocabulary of the properties\<close>

text \<open>
  A well-formed pair of lines, as the format describes it: an action line that is not
  blank and decodes to \<open>{"index": {"_index": target, "_id": ident}}\<close> (other members
  may stand beside these), and a body line that decodes to the document.
\<close>

record ndjson_pair =
  pair_action :: string
  pair_body :: string
  pair_target :: string
  pair_ident :: string
  pair_source :: json

fun names_document :: "py_exception + json \<Rightarrow> string \<Rightarrow> string \<Rightarrow> bool" where
  "names_document (Inr (JDict kvs)) t i =
     (case map_of kvs ''index'' of
        Some (JDict ivs) \<Rightarrow>
          map_of ivs ''_index'' = Some (JStr t) \<and> map_of ivs ''_id'' = Some (JStr i)
      | _ \<Rightarrow> False)"
| "names_document r t i = False"

definition well_formed :: "decoder \<Rightarrow> ndjson_pair \<Rightarrow> bool" where
  "well_formed loads p =
     (strip (pair_action p) \<noteq> [] \<and>
      names_document (loads (strip (pair_action p))) (pair_target p) (pair_ident p) \<and>
      loads (strip (pair_body p)) = Inr (pair_source p))"

definition pair_lines :: "ndjson_pair \<Rightarrow> string list" where
  "pair_lines p = [pair_action p, pair_body p]"

definition stream_lines :: "ndjson_pair list \<Rightarrow> string list" where
  "stream_lines ps = concat (map pair_lines ps)"

definition pair_doc :: "ndjson_pair \<Rightarrow> bulk_doc" where
  "pair_doc p =
     \<lparr>doc_index = JStr (pair_target p), doc_id = JStr (pair_ident p),
      doc_source = pair_source p\<rparr>"

fun is_dict :: "json \<Rightarrow> bool" where
  "is_dict (JDict kvs) = True"
| "is_dict v = False"

section \<open>Stand-ins for the files, the cluster and the environment\<close>

text \<open>A file system that holds one file.\<close>

definition one_file :: "string \<Rightarrow> string \<Rightarrow> file_system" where
  "one_file name text path = (if path = name then Inr text else Inl FileNotFoundError)"

text \<open>
  A cluster in memory, for the closed instances: each index has a name, its mapping and
  its documents.
\<close>

type_synonym cluster = "(string \<times> json \<times> bulk_doc list) list"

definition accepts :: "cluster \<Rightarrow> bulk_doc \<Rightarrow> bool" where
  "accepts c d = (case doc_index d of JStr n \<Rightarrow> map_of c n \<noteq> None | _ \<Rightarrow> False)"

definition store :: "bulk_doc \<Rightarrow> cluster \<Rightarrow> cluster" where
  "store d c =
     (case doc_index d of
        JStr n \<Rightarrow>
          (case map_of c n of
             Some (m, ds) \<Rightarrow> AList.update n (m, ds @ [d]) c
           | None \<Rightarrow> c)
      | _ \<Rightarrow> c)"

definition rejection :: "bulk_doc \<Rightarrow> json" where
  "rejection d =
     JDict [(''index'', JDict [(''_index'', doc_index d), (''_id'', doc_id d),
                               (''status'', JInt 404)])]"

text \<open>
  A client library over that cluster. Three flags make the existence check, the
  deletion and the creation raise. Deleting a missing index and creating an existing
  one raise as well. \<open>helpers.bulk\<close> stores the documents whose index exists; for the
  others it raises when \<open>raise_on_error\<close> is set (the default of the library) and
  lists them as failed items otherwise.
\<close>

definition memory_api :: "bool \<Rightarrow> bool \<Rightarrow> bool \<Rightarrow> bool \<Rightarrow> cluster es_api" where
  "memory_api exists_fails delete_fails create_fails raise_on_error =
     \<lparr>construct = (\<lambda>host api_key timeout. None),
      ping = (\<lambda>es c. (Inr True, c)),
      indices_exists = (\<lambda>es name c.
        if exists_fails then (Inl OtherException, c) else (Inr (map_of c name \<noteq> None), c)),
      indices_delete = (\<lambda>es name c.
        if delete_fails \<or> map_of c name = None then (Inl OtherException, c)
        else (Inr (), AList.delete name c)),
      indices_create = (\<lambda>es name mapping c.
        if create_fails \<or> map_of c name \<noteq> None then (Inl OtherException, c)
        else (Inr (), AList.update name (mapping, []) c)),
      helpers_bulk = (\<lambda>es docs chunk_size c.
        if raise_on_error \<and> \<not> list_all (accepts c) docs
        then (Inl OtherException, fold store (filter (accepts c) docs) c)
        else (Inr (length (filter (accepts c) docs),
                   map rejection (filter (\<lambda>d. \<not> accepts c d) docs)),
              fold store (filter (accepts c) docs) c))\<rparr>"

definition example_client :: client where
  "example_client =
     \<lparr>client_host = ''https://localhost:9200'', client_api_key = ''key'',
      client_request_timeout = 60\<rparr>"

definition example_mapping :: json where
  "example_mapping = JDict [(''mappings'', JDict [])]"

text \<open>The environment as a list of variables and values.\<close>

definition env_of :: "(string \<times> string) list \<Rightarrow> string \<Rightarrow> string option" where
  "env_of vars name = map_of vars name"

text \<open>A file system given by a list of paths and contents.\<close>

definition files_of :: "(string \<times> string) list \<Rightarrow> file_system" where
  "files_of fl path =
     (case map_of fl path of Some t \<Rightarrow> Inr t | None \<Rightarrow> Inl FileNotFoundError)"

section \<open>Inputs of the closed instances\<close>

text \<open>The NDJSON content of the two-pair example, and its two pairs.\<close>

definition example_ndjson :: string where
  \<open>example_ndjson =
     ''{"index":{"_index":"a","_id":"1"}}\<newline>{"f":1}\<newline>{"index":{"_index":"a","_id":"2"}}\<newline>{"f":2}\<newline>''\<close>

definition example_pair1 :: ndjson_pair where
  \<open>example_pair1 =
     \<lparr>pair_action = ''{"index":{"_index":"a","_id":"1"}}\<newline>'', pair_body = ''{"f":1}\<newline>'',
      pair_target = ''a'', pair_ident = ''1'', pair_source = JDict [(''f'', JInt 1)]\<rparr>\<close>

definition example_pair2 :: ndjson_pair where
  \<open>example_pair2 =
     \<lparr>pair_action = ''{"index":{"_index":"a","_id":"2"}}\<newline>'', pair_body = ''{"f":2}\<newline>'',
      pair_target = ''a'', pair_ident = ''2'', pair_source = JDict [(''f'', JInt 2)]\<rparr>\<close>

definition example_pairs :: "ndjson_pair list" where
  "example_pairs = [example_pair1, example_pair2]"

text \<open>The same content with an empty line after the first action line.\<close>

definition blank_after_action_ndjson :: string where
  \<open>blank_after_action_ndjson =
     ''{"index":{"_index":"a","_id":"1"}}\<newline>\<newline>{"f":1}\<newline>{"index":{"_index":"a","_id":"2"}}\<newline>{"f":2}\<newline>''\<close>

text \<open>The same content with an empty line between the two pairs.\<close>

definition blank_between_pairs_ndjson :: string where
  \<open>blank_between_pairs_ndjson =
     ''{"index":{"_index":"a","_id":"1"}}\<newline>{"f":1}\<newline>\<newline>{"index":{"_index":"a","_id":"2"}}\<newline>{"f":2}\<newline>''\<close>

text \<open>The example with a first document line that is cut short.\<close>

definition broken_body_ndjson :: string where
  \<open>broken_body_ndjson =
     ''{"index":{"_index":"a","_id":"1"}}\<newline>{"f":\<newline>{"index":{"_index":"a","_id":"2"}}\<newline>{"f":2}\<newline>''\<close>

text \<open>The example with a line that is no JSON text between its pairs.\<close>

definition bad_action_ndjson :: string where
  \<open>bad_action_ndjson =
     ''{"index":{"_index":"a","_id":"1"}}\<newline>{"f":1}\<newline>not json\<newline>{"index":{"_index":"a","_id":"2"}}\<newline>{"f":2}\<newline>''\<close>

text \<open>The example without its last document line.\<close>

definition trailing_action_ndjson :: string where
  \<open>trailing_action_ndjson =
     ''{"index":{"_index":"a","_id":"1"}}\<newline>{"f":1}\<newline>{"index":{"_index":"a","_id":"2"}}\<newline>''\<close>

text \<open>The same, followed by an empty line.\<close>

definition trailing_action_blank_ndjson :: string where
  \<open>trailing_action_blank_ndjson =
     ''{"index":{"_index":"a","_id":"1"}}\<newline>{"f":1}\<newline>{"index":{"_index":"a","_id":"2"}}\<newline>\<newline>''\<close>

text \<open>
  An empty object as action line; the example with \<open>{"index":5}\<close> as action line
  after its first pair; and a bare number as action line.
\<close>

definition empty_action_ndjson :: string where
  \<open>empty_action_ndjson = ''{}\<newline>{"f":1}\<newline>''\<close>

definition index_number_ndjson :: string where
  \<open>index_number_ndjson =
     ''{"index":{"_index":"a","_id":"1"}}\<newline>{"f":1}\<newline>{"index":5}\<newline>{"f":2}\<newline>{"index":{"_index":"a","_id":"2"}}\<newline>{"f":2}\<newline>''\<close>

definition bare_number_ndjson :: string where
  \<open>bare_number_ndjson = ''5\<newline>{"f":1}\<newline>''\<close>

text \<open>
  A cluster that already holds the index \<open>ubi_events\<close>, with another mapping and a
  document.
\<close>

definition stale_cluster :: cluster where
  "stale_cluster = [(''ubi_events'', JNull, [pair_doc example_pair1])]"

text \<open>A mapping file that is cut short, and one that holds \<open>example_mapping\<close>.\<close>

definition broken_mapping_text :: string where
  \<open>broken_mapping_text = ''{"mappings":''\<close>

definition example_mapping_text :: string where
  \<open>example_mapping_text = ''{"mappings": {}}\<newline>''\<close>

text \<open>The files of a run: the mapping, and one document for \<open>ubi_events\<close>.\<close>

definition ubi_ndjson :: string where
  \<open>ubi_ndjson = ''{"index":{"_index":"ubi_events","_id":"1"}}\<newline>{"f":1}\<newline>''\<close>

definition project_files :: file_system where
  "project_files = files_of [(mapping_path, example_mapping_text), (ndjson_path, ubi_ndjson)]"

section \<open>The loop of the parser, step by step\<close>

lemma loop_body_advances:
  "loop_running lines s \<Longrightarrow>
   raised (loop_body loads lines s) \<noteq> None \<or>
   (cursor s < cursor (loop_body loads lines s) \<and> raised (loop_body loads lines s) = None)"
  by (auto simp: loop_running_def loop_body_def loop_except_def Let_def
           split: sum.splits)

lemma parse_loop_run:
  "loop_running lines s \<Longrightarrow>
   parse_loop loads lines s = parse_loop loads lines (loop_body loads lines s)"
  by (subst parse_loop.simps) simp

lemma parse_loop_stop: "\<not> loop_running lines s \<Longrightarrow> parse_loop loads lines s = s"
  by (subst parse_loop.simps) simp

lemma names_document_cases:
  assumes "names_document r t i"
  obtains kvs ivs where "r = Inr (JDict kvs)" "map_of kvs ''index'' = Some (JDict ivs)"
    "map_of ivs ''_index'' = Some (JStr t)" "map_of ivs ''_id'' = Some (JStr i)"
proof (cases r)
  case (Inl e)
  with assms show ?thesis by simp
next
  case (Inr v)
  with assms that show ?thesis
    by (cases v) (auto split: option.splits json.splits)
qed

lemma pair_step:
  assumes wf: "well_formed loads p"
    and cur: "cursor s = length pre"
  shows "loop_body loads (pre @ pair_action p # pair_body p # post) s =
         s\<lparr>documents := documents s @ [pair_doc p], cursor := length pre + 2\<rparr>"
proof -
  from wf have blank: "strip (pair_action p) \<noteq> []"
    and nd: "names_document (loads (strip (pair_action p))) (pair_target p) (pair_ident p)"
    and body: "loads (strip (pair_body p)) = Inr (pair_source p)"
    by (simp_all add: well_formed_def)
  from nd obtain kvs ivs where
    act: "loads (strip (pair_action p)) = Inr (JDict kvs)"
    and idx: "map_of kvs ''index'' = Some (JDict ivs)"
    and tgt: "map_of ivs ''_index'' = Some (JStr (pair_target p))"
    and idt: "map_of ivs ''_id'' = Some (JStr (pair_ident p))"
    by (rule names_document_cases)
  have l0: "(pre @ pair_action p # pair_body p # post) ! length pre = pair_action p"
    by simp
  have l1: "(pre @ pair_action p # pair_body p # post) ! (length pre + 1) = pair_body p"
    by (simp add: nth_append)
  show ?thesis
    unfolding loop_body_def Let_def cur l0 l1
    by (simp add: blank act body idx tgt idt pair_doc_def)
qed

lemma stream_loop:
  "list_all (well_formed loads) ps \<Longrightarrow> raised s = None \<Longrightarrow> cursor s = length pre \<Longrightarrow>
   parse_loop loads (pre @ stream_lines ps @ post) s =
   parse_loop loads (pre @ stream_lines ps @ post)
     (s\<lparr>documents := documents s @ map pair_doc ps,
        cursor := length pre + 2 * length ps\<rparr>)"
proof (induction ps arbitrary: pre s)
  case Nil
  from Nil(3) [symmetric] have "s\<lparr>cursor := length pre\<rparr> = s" by simp
  then show ?case by (simp add: stream_lines_def)
next
  case (Cons p ps)
  let ?lines = "pre @ stream_lines (p # ps) @ post"
  let ?s1 = "s\<lparr>documents := documents s @ [pair_doc p], cursor := length pre + 2\<rparr>"
  have shape: "?lines = pre @ pair_action p # pair_body p # (stream_lines ps @ post)"
    by (simp add: stream_lines_def pair_lines_def)
  have shape': "?lines = (pre @ pair_lines p) @ stream_lines ps @ post"
    by (simp add: stream_lines_def)
  from Cons.prems have wf: "well_formed loads p" and wfs: "list_all (well_formed loads) ps"
    by simp_all
  have run: "loop_running ?lines s"
    using Cons.prems by (simp add: loop_running_def shape)
  have step: "loop_body loads ?lines s = ?s1"
    unfolding shape using wf Cons.prems(3) by (rule pair_step)
  have "parse_loop loads ?lines s = parse_loop loads ?lines ?s1"
    using parse_loop_run [OF run, of loads] step by simp
  also have "\<dots> = parse_loop loads ?lines
       (?s1\<lparr>documents := documents ?s1 @ map pair_doc ps,
            cursor := length (pre @ pair_lines p) + 2 * length ps\<rparr>)"
    unfolding shape'
    by (rule Cons.IH [OF wfs]) (use Cons.prems in \<open>simp_all add: pair_lines_def\<close>)
  finally show ?case by (simp add: pair_lines_def)
qed

lemma length_stream_lines: "length (stream_lines ps) = 2 * length ps"
  by (induction ps) (simp_all add: stream_lines_def pair_lines_def)

lemma stream_only:
  assumes "list_all (well_formed loads) ps"
  shows "parse_loop loads (stream_lines ps) loop_start =
         \<lparr>cursor = 2 * length ps, documents = map pair_doc ps, printed = [], raised = None\<rparr>"
proof -
  have "parse_loop loads ([] @ stream_lines ps @ []) loop_start =
        parse_loop loads ([] @ stream_lines ps @ [])
          (loop_start\<lparr>documents := documents loop_start @ map pair_doc ps,
                      cursor := length ([] :: string list) + 2 * length ps\<rparr>)"
    using assms by (rule stream_loop) (simp_all add: loop_start_def)
  then show ?thesis
    by (simp add: loop_start_def parse_loop_stop loop_running_def length_stream_lines)
qed

section \<open>Running the statements\<close>

lemma parse_ndjson_of_loop:
  assumes "fs filename = Inr text"
    and "parse_loop loads (readlines text) loop_start = s"
    and "raised s = None"
  shows "parse_ndjson_for_bulk fs loads filename c =
         (Returned (Some (documents s)), c,
          printed s @ [Print (Msg_parsed (length (documents s)) filename)])"
  using assms
  by (simp add: parse_ndjson_for_bulk_def try_except_def and_then_def answer_def
        run_loop_def say_def returns_def)

lemma parse_ndjson_of_raise:
  assumes "fs filename = Inr text"
    and "parse_loop loads (readlines text) loop_start = s"
    and "raised s = Some e"
  shows "parse_ndjson_for_bulk fs loads filename c =
         (Returned None, c,
          printed s @ [Print (if e = FileNotFoundError then Msg_ndjson_not_found filename
                              else Msg_ndjson_error)])"
  using assms
  by (simp add: parse_ndjson_for_bulk_def try_except_def and_then_def answer_def
        run_loop_def say_def returns_def)

lemma blank_step:
  "strip (lines ! cursor s) = [] \<Longrightarrow> loop_body loads lines s = s\<lparr>cursor := cursor s + 1\<rparr>"
  by (simp add: loop_body_def)

lemma invalid_step:
  "strip (lines ! cursor s) \<noteq> [] \<Longrightarrow> loads (strip (lines ! cursor s)) = Inl JSONDecodeError \<Longrightarrow>
   loop_body loads lines s =
   s\<lparr>printed := printed s @ [Print (Msg_invalid_json (cursor s + 1))],
     cursor := cursor s + 1\<rparr>"
  by (simp add: loop_body_def loop_except_def Let_def)

lemma invalid_body_step:
  "strip (lines ! cursor s) \<noteq> [] \<Longrightarrow> loads (strip (lines ! cursor s)) = Inr a \<Longrightarrow>
   cursor s + 1 < length lines \<Longrightarrow>
   loads (strip (lines ! (cursor s + 1))) = Inl JSONDecodeError \<Longrightarrow>
   loop_body loads lines s =
   s\<lparr>printed := printed s @ [Print (Msg_invalid_json (cursor s + 1))],
     cursor := cursor s + 1\<rparr>"
  by (simp add: loop_body_def loop_except_def Let_def)

lemma orphan_step:
  "strip (lines ! cursor s) \<noteq> [] \<Longrightarrow> loads (strip (lines ! cursor s)) = Inr a \<Longrightarrow>
   \<not> cursor s + 1 < length lines \<Longrightarrow>
   loop_body loads lines s =
   s\<lparr>printed := printed s @ [Print (Msg_missing_document (cursor s + 1))],
     cursor := cursor s + 1\<rparr>"
  by (simp add: loop_body_def Let_def)

lemma blanks_loop:
  "raised s = None \<Longrightarrow> cursor s \<le> length lines \<Longrightarrow>
   \<forall>i. cursor s \<le> i \<and> i < length lines \<longrightarrow> strip (lines ! i) = [] \<Longrightarrow>
   parse_loop loads lines s = s\<lparr>cursor := length lines\<rparr>"
proof (induction loads lines s rule: parse_loop.induct)
  case (1 loads lines s)
  show ?case
  proof (cases "loop_running lines s")
    case True
    then have lt: "cursor s < length lines"
      by (simp add: loop_running_def)
    with "1.prems" have "strip (lines ! cursor s) = []"
      by simp
    then have step: "loop_body loads lines s = s\<lparr>cursor := cursor s + 1\<rparr>"
      by (rule blank_step)
    have "parse_loop loads lines (loop_body loads lines s) =
          (loop_body loads lines s)\<lparr>cursor := length lines\<rparr>"
      using True "1.prems" lt by (intro "1.IH") (simp_all add: step)
    then show ?thesis
      using parse_loop_run [OF True, of loads] by (simp add: step)
  next
    case False
    with "1.prems" have "cursor s = length lines"
      by (simp add: loop_running_def)
    then have "s\<lparr>cursor := length lines\<rparr> = s"
      by (metis loop_state.surjective loop_state.update_convs(1))
    with False show ?thesis
      by (simp add: parse_loop_stop)
  qed
qed

lemma nth_after_stream: "(stream_lines ps @ x # rest) ! (2 * length ps) = x"
  by (simp add: nth_append length_stream_lines)

lemma stream_prefix:
  assumes "list_all (well_formed loads) ps"
  shows "parse_loop loads (stream_lines ps @ post) loop_start =
         parse_loop loads (stream_lines ps @ post)
           \<lparr>cursor = 2 * length ps, documents = map pair_doc ps, printed = [],
            raised = None\<rparr>"
proof -
  have "parse_loop loads ([] @ stream_lines ps @ post) loop_start =
        parse_loop loads ([] @ stream_lines ps @ post)
          (loop_start\<lparr>documents := documents loop_start @ map pair_doc ps,
                      cursor := length ([] :: string list) + 2 * length ps\<rparr>)"
    using assms by (rule stream_loop) (simp_all add: loop_start_def)
  then show ?thesis by (simp add: loop_start_def)
qed

text \<open>
  A run over well-formed pairs, one more line, and well-formed pairs again, when the
  loop spends exactly that line on one iteration that prints \<open>w\<close>.
\<close>

lemma stream_line_stream:
  assumes ps: "list_all (well_formed loads) ps"
    and qs: "list_all (well_formed loads) qs"
    and step: "loop_body loads (stream_lines ps @ x # stream_lines qs)
                 \<lparr>cursor = 2 * length ps, documents = map pair_doc ps, printed = [],
                  raised = None\<rparr> =
               \<lparr>cursor = 2 * length ps + 1, documents = map pair_doc ps, printed = w,
                raised = None\<rparr>"
  shows "parse_loop loads (stream_lines ps @ x # stream_lines qs) loop_start =
         \<lparr>cursor = 2 * length ps + 1 + 2 * length qs,
          documents = map pair_doc ps @ map pair_doc qs, printed = w, raised = None\<rparr>"
proof -
  let ?lines = "stream_lines ps @ x # stream_lines qs"
  let ?s1 = "\<lparr>cursor = 2 * length ps, documents = map pair_doc ps, printed = [],
              raised = None\<rparr>"
  let ?s2 = "\<lparr>cursor = 2 * length ps + 1, documents = map pair_doc ps, printed = w,
              raised = None\<rparr>"
  have run: "loop_running ?lines ?s1"
    by (simp add: loop_running_def length_stream_lines)
  have shape: "?lines = (stream_lines ps @ [x]) @ stream_lines qs @ []"
    by simp
  have "parse_loop loads ?lines loop_start = parse_loop loads ?lines ?s1"
    using ps by (rule stream_prefix)
  also have "\<dots> = parse_loop loads ?lines ?s2"
    using parse_loop_run [OF run, of loads] step by simp
  also have "\<dots> = parse_loop loads ?lines
      (?s2\<lparr>documents := documents ?s2 @ map pair_doc qs,
           cursor := length (stream_lines ps @ [x]) + 2 * length qs\<rparr>)"
    unfolding shape
    by (rule stream_loop [OF qs]) (simp_all add: length_stream_lines)
  also have "\<dots> = \<lparr>cursor = 2 * length ps + 1 + 2 * length qs,
          documents = map pair_doc ps @ map pair_doc qs, printed = w, raised = None\<rparr>"
    by (simp add: parse_loop_stop loop_running_def length_stream_lines)
  finally show ?thesis .
qed

lemma stream_lines_append: "stream_lines (ps @ qs) = stream_lines ps @ stream_lines qs"
  by (simp add: stream_lines_def)

lemma parse_loop_while:
  "while_option (loop_running lines) (loop_body loads lines) s =
   Some (parse_loop loads lines s)"
proof (induction loads lines s rule: parse_loop.induct)
  case (1 loads lines s)
  show ?case
  proof (cases "loop_running lines s")
    case True
    with "1.IH" show ?thesis
      by (subst while_option_unfold) (simp add: parse_loop_run)
  next
    case False
    then show ?thesis
      by (subst while_option_unfold) (simp add: parse_loop_stop)
  qed
qed

lemma parse_loop_finished: "\<not> loop_running lines (parse_loop loads lines s)"
proof (induction loads lines s rule: parse_loop.induct)
  case (1 loads lines s)
  then show ?case
    by (cases "loop_running lines s") (simp_all add: parse_loop_run parse_loop_stop)
qed

lemma parse_ndjson_returns:
  "\<exists>r ev. parse_ndjson_for_bulk fs loads filename c = (Returned r, c, ev)"
  by (auto simp: parse_ndjson_for_bulk_def try_except_def and_then_def answer_def
        run_loop_def say_def returns_def Let_def split: sum.splits option.splits)

section \<open>The parser on well-formed input\<close>

text \<open>
  C1. When the file holds the lines of \<open>N\<close> well-formed action/document pairs and
  nothing else, \<open>parse_ndjson_for_bulk\<close> returns exactly \<open>N\<close> records, in the order of
  the pairs, each with the \<open>_index\<close> and \<open>_id\<close> of its action line and the decoded body
  line as its source, and prints only the count.
\<close>

theorem parse_ndjson_well_formed:
  assumes "fs filename = Inr content"
    and "readlines content = stream_lines ps"
    and "list_all (well_formed loads) ps"
  shows "parse_ndjson_for_bulk fs loads filename c =
         (Returned (Some (map pair_doc ps)), c, [Print (Msg_parsed (length ps) filename)])"
proof -
  have run: "parse_loop loads (readlines content) loop_start =
        \<lparr>cursor = 2 * length ps, documents = map pair_doc ps, printed = [], raised = None\<rparr>"
    using assms(2,3) by (simp add: stream_only)
  show ?thesis
    using parse_ndjson_of_loop [where fs = fs and filename = filename and c = c,
        OF assms(1) run]
    by simp
qed

text \<open>
  The two-pair example: the content yields the records
  \<open>{a, 1, {f: 1}}\<close> and \<open>{a, 2, {f: 2}}\<close>.
\<close>

theorem parse_ndjson_example:
  \<open>list_all (well_formed json_loads) example_pairs \<and>
   readlines example_ndjson = stream_lines example_pairs \<and>
   parse_ndjson_for_bulk (one_file ndjson_path example_ndjson) json_loads ndjson_path () =
     (Returned (Some
        [\<lparr>doc_index = JStr ''a'', doc_id = JStr ''1'', doc_source = JDict [(''f'', JInt 1)]\<rparr>,
         \<lparr>doc_index = JStr ''a'', doc_id = JStr ''2'', doc_source = JDict [(''f'', JInt 2)]\<rparr>]),
      (), [Print (Msg_parsed 2 ndjson_path)])\<close>
proof -
  have f: "one_file ndjson_path example_ndjson ndjson_path = Inr example_ndjson"
    by (simp add: one_file_def)
  have l: "readlines example_ndjson = stream_lines example_pairs"
    by code_simp
  have w: "list_all (well_formed json_loads) example_pairs"
    by code_simp
  from parse_ndjson_well_formed
         [where fs = "one_file ndjson_path example_ndjson" and filename = ndjson_path
            and c = "()", OF f l w] l w
  show ?thesis
    by (simp add: example_pairs_def example_pair1_def example_pair2_def pair_doc_def)
qed

section \<open>Blank lines\<close>

lemma parse_ndjson_same_loop:
  assumes "fs filename = Inr content" and "fs' filename = Inr content'"
    and "parse_loop loads (readlines content') loop_start = s"
    and "parse_loop loads (readlines content) loop_start = s\<lparr>cursor := n\<rparr>"
  shows "parse_ndjson_for_bulk fs' loads filename c = parse_ndjson_for_bulk fs loads filename c"
proof (cases "raised s")
  case None
  then show ?thesis
    using parse_ndjson_of_loop [where fs = fs' and filename = filename and c = c,
        OF assms(2) assms(3)]
      parse_ndjson_of_loop [where fs = fs and filename = filename and c = c,
        OF assms(1) assms(4)]
    by simp
next
  case (Some e)
  then show ?thesis
    using parse_ndjson_of_raise [where fs = fs' and filename = filename and c = c,
        OF assms(2) assms(3)]
      parse_ndjson_of_raise [where fs = fs and filename = filename and c = c,
        OF assms(1) assms(4)]
    by simp
qed

text \<open>
  C2, as the code has it. A line that \<open>strip\<close> empties is skipped where the loop looks
  for an action line: the cursor moves by one and nothing else changes. So a blank line
  before, between or after the pairs of a well-formed stream changes neither the
  records nor the output. (A blank line right after an action line is not at such a
  place: it is read as the document line of that action.)
\<close>

theorem blank_line_between_pairs:
  assumes blank: "strip blank = []"
  shows "(loop_running lines s \<and> lines ! cursor s = blank \<longrightarrow>
            parse_loop loads lines s = parse_loop loads lines (s\<lparr>cursor := cursor s + 1\<rparr>)) \<and>
         (list_all (well_formed loads) ps \<and> list_all (well_formed loads) qs \<and>
          fs filename = Inr content \<and> readlines content = stream_lines ps @ stream_lines qs \<and>
          fs' filename = Inr content' \<and>
          readlines content' = stream_lines ps @ blank # stream_lines qs \<longrightarrow>
            parse_ndjson_for_bulk fs' loads filename c =
            parse_ndjson_for_bulk fs loads filename c)"
proof (intro conjI impI)
  assume "loop_running lines s \<and> lines ! cursor s = blank"
  then have run: "loop_running lines s" and "strip (lines ! cursor s) = []"
    using blank by simp_all
  then show "parse_loop loads lines s = parse_loop loads lines (s\<lparr>cursor := cursor s + 1\<rparr>)"
    by (simp add: parse_loop_run blank_step)
next
  assume h: "list_all (well_formed loads) ps \<and> list_all (well_formed loads) qs \<and>
          fs filename = Inr content \<and> readlines content = stream_lines ps @ stream_lines qs \<and>
          fs' filename = Inr content' \<and>
          readlines content' = stream_lines ps @ blank # stream_lines qs"
  then have ps: "list_all (well_formed loads) ps" and qs: "list_all (well_formed loads) qs"
    and f: "fs filename = Inr content" and f': "fs' filename = Inr content'"
    and l: "readlines content = stream_lines ps @ stream_lines qs"
    and l': "readlines content' = stream_lines ps @ blank # stream_lines qs"
    by simp_all
  have step: "loop_body loads (stream_lines ps @ blank # stream_lines qs)
                 \<lparr>cursor = 2 * length ps, documents = map pair_doc ps, printed = [],
                  raised = None\<rparr> =
               \<lparr>cursor = 2 * length ps + 1, documents = map pair_doc ps, printed = [],
                raised = None\<rparr>"
    by (simp add: blank_step nth_after_stream blank)
  have with_blank: "parse_loop loads (readlines content') loop_start =
      \<lparr>cursor = 2 * length ps + 1 + 2 * length qs,
       documents = map pair_doc ps @ map pair_doc qs, printed = [], raised = None\<rparr>"
    unfolding l' using ps qs step by (rule stream_line_stream)
  have "list_all (well_formed loads) (ps @ qs)"
    using ps qs by simp
  then have without: "parse_loop loads (readlines content) loop_start =
      \<lparr>cursor = 2 * length (ps @ qs), documents = map pair_doc (ps @ qs), printed = [],
       raised = None\<rparr>"
    unfolding l stream_lines_append [symmetric] by (rule stream_only)
  show "parse_ndjson_for_bulk fs' loads filename c = parse_ndjson_for_bulk fs loads filename c"
    using f f' with_blank
  proof (rule parse_ndjson_same_loop [where n = "2 * length (ps @ qs)"])
    show "parse_loop loads (readlines content) loop_start =
          \<lparr>cursor = 2 * length ps + 1 + 2 * length qs,
           documents = map pair_doc ps @ map pair_doc qs, printed = [], raised = None\<rparr>
          \<lparr>cursor := 2 * length (ps @ qs)\<rparr>"
      using without by simp
  qed
qed

text \<open>
  The instance: the two-pair example with an empty line between its pairs parses as the
  example itself does, and the loop passes the empty line (the third line) in one step.
\<close>

theorem blank_line_between_pairs_example:
  \<open>strip ''\<newline>'' = [] \<and>
   readlines blank_between_pairs_ndjson =
     stream_lines [example_pair1] @ ''\<newline>'' # stream_lines [example_pair2] \<and>
   parse_ndjson_for_bulk (one_file ndjson_path blank_between_pairs_ndjson) json_loads
     ndjson_path () =
   parse_ndjson_for_bulk (one_file ndjson_path example_ndjson) json_loads ndjson_path () \<and>
   parse_loop json_loads (readlines blank_between_pairs_ndjson)
     \<lparr>cursor = 2, documents = [pair_doc example_pair1], printed = [], raised = None\<rparr> =
   parse_loop json_loads (readlines blank_between_pairs_ndjson)
     \<lparr>cursor = 3, documents = [pair_doc example_pair1], printed = [], raised = None\<rparr>\<close>
proof -
  let ?lines = "readlines blank_between_pairs_ndjson"
  let ?s = "\<lparr>cursor = 2, documents = [pair_doc example_pair1], printed = [],
             raised = None\<rparr>"
  have b: \<open>strip ''\<newline>'' = []\<close>
    by code_simp
  have run: \<open>loop_running ?lines ?s \<and> ?lines ! cursor ?s = ''\<newline>''\<close>
    by code_simp
  have wf: "list_all (well_formed json_loads) [example_pair1] \<and>
            list_all (well_formed json_loads) [example_pair2]"
    by code_simp
  have f: "one_file ndjson_path example_ndjson ndjson_path = Inr example_ndjson"
    and f': "one_file ndjson_path blank_between_pairs_ndjson ndjson_path =
             Inr blank_between_pairs_ndjson"
    by (simp_all add: one_file_def)
  have l: "readlines example_ndjson = stream_lines [example_pair1] @ stream_lines [example_pair2]"
    by code_simp
  have l': \<open>readlines blank_between_pairs_ndjson =
     stream_lines [example_pair1] @ ''\<newline>'' # stream_lines [example_pair2]\<close>
    by code_simp
  note T = blank_line_between_pairs [OF b, where lines = "?lines" and s = "?s"
      and loads = json_loads and ps = "[example_pair1]" and qs = "[example_pair2]"
      and fs = "one_file ndjson_path example_ndjson" and filename = ndjson_path
      and content = example_ndjson and fs' = "one_file ndjson_path blank_between_pairs_ndjson"
      and content' = blank_between_pairs_ndjson and c = "()"]
  have one: "parse_loop json_loads ?lines ?s =
      parse_loop json_loads ?lines (?s\<lparr>cursor := cursor ?s + 1\<rparr>)"
    using T [THEN conjunct1] run by (rule mp)
  have hyp: \<open>list_all (well_formed json_loads) [example_pair1] \<and>
      list_all (well_formed json_loads) [example_pair2] \<and>
      one_file ndjson_path example_ndjson ndjson_path = Inr example_ndjson \<and>
      readlines example_ndjson = stream_lines [example_pair1] @ stream_lines [example_pair2] \<and>
      one_file ndjson_path blank_between_pairs_ndjson ndjson_path =
        Inr blank_between_pairs_ndjson \<and>
      readlines blank_between_pairs_ndjson =
        stream_lines [example_pair1] @ ''\<newline>'' # stream_lines [example_pair2]\<close>
    using wf f f' l l' by (intro conjI) (elim conjE, assumption)+
  have two:
    "parse_ndjson_for_bulk (one_file ndjson_path blank_between_pairs_ndjson) json_loads
       ndjson_path () =
     parse_ndjson_for_bulk (one_file ndjson_path example_ndjson) json_loads ndjson_path ()"
    using T [THEN conjunct2] hyp by (rule mp)
  from b l' one two show ?thesis by simp
qed

text \<open>
  C2 as stated fails: with an empty line between the first action line and its document
  line, the action is dropped with a warning, the document line is taken for an action
  and the next action line for its document, and the records differ.
\<close>

theorem blank_line_after_action_counterexample:
  \<open>strip ''\<newline>'' = [] \<and>
   list_all (well_formed json_loads) [example_pair1, example_pair2] \<and>
   readlines example_ndjson = stream_lines [example_pair1, example_pair2] \<and>
   readlines blank_after_action_ndjson =
     pair_action example_pair1 # ''\<newline>'' # pair_body example_pair1 #
     stream_lines [example_pair2] \<and>
   parse_ndjson_for_bulk (one_file ndjson_path example_ndjson) json_loads ndjson_path () =
     (Returned (Some
        [\<lparr>doc_index = JStr ''a'', doc_id = JStr ''1'', doc_source = JDict [(''f'', JInt 1)]\<rparr>,
         \<lparr>doc_index = JStr ''a'', doc_id = JStr ''2'', doc_source = JDict [(''f'', JInt 2)]\<rparr>]),
      (), [Print (Msg_parsed 2 ndjson_path)]) \<and>
   parse_ndjson_for_bulk (one_file ndjson_path blank_after_action_ndjson) json_loads
       ndjson_path () =
     (Returned (Some
        [\<lparr>doc_index = JNull, doc_id = JNull,
          doc_source = JDict [(''index'', JDict [(''_index'', JStr ''a''), (''_id'', JStr ''2'')])]\<rparr>]),
      (), [Print (Msg_invalid_json 1), Print (Msg_missing_document 5),
           Print (Msg_parsed 1 ndjson_path)]) \<and>
   fst (parse_ndjson_for_bulk (one_file ndjson_path blank_after_action_ndjson) json_loads
          ndjson_path ()) \<noteq>
   fst (parse_ndjson_for_bulk (one_file ndjson_path example_ndjson) json_loads
          ndjson_path ())\<close>
  by code_simp

section \<open>Termination of the loop\<close>

text \<open>
  C3. The loop of \<open>parse_ndjson_for_bulk\<close> terminates on every list of lines and from
  every state: run as a \<open>while\<close> loop it reaches a final state, the one \<open>parse_loop\<close>
  computes, and the function returns to its caller. Every iteration either leaves the
  loop with an exception or moves the cursor forward. When the document line after a
  decoded action line fails to decode, the iteration prints a warning, emits no record
  and moves the cursor by one.
\<close>

theorem parse_loop_terminates:
  "(\<exists>t. while_option (loop_running lines) (loop_body loads lines) s = Some t \<and>
        t = parse_loop loads lines s \<and> \<not> loop_running lines t) \<and>
   (\<exists>r ev. parse_ndjson_for_bulk fs loads filename c = (Returned r, c, ev)) \<and>
   (loop_running lines s \<longrightarrow>
      raised (loop_body loads lines s) \<noteq> None \<or>
      cursor s < cursor (loop_body loads lines s)) \<and>
   (loop_running lines s \<and> strip (lines ! cursor s) \<noteq> [] \<and>
    loads (strip (lines ! cursor s)) = Inr a \<and> cursor s + 1 < length lines \<and>
    loads (strip (lines ! (cursor s + 1))) = Inl JSONDecodeError \<longrightarrow>
      loop_body loads lines s =
      s\<lparr>printed := printed s @ [Print (Msg_invalid_json (cursor s + 1))],
        cursor := cursor s + 1\<rparr>)"
proof (intro conjI impI)
  show "\<exists>t. while_option (loop_running lines) (loop_body loads lines) s = Some t \<and>
        t = parse_loop loads lines s \<and> \<not> loop_running lines t"
    by (simp add: parse_loop_while parse_loop_finished)
next
  show "\<exists>r ev. parse_ndjson_for_bulk fs loads filename c = (Returned r, c, ev)"
    by (rule parse_ndjson_returns)
next
  assume "loop_running lines s"
  from loop_body_advances [OF this, of loads]
  show "raised (loop_body loads lines s) \<noteq> None \<or>
        cursor s < cursor (loop_body loads lines s)"
    by blast
next
  assume "loop_running lines s \<and> strip (lines ! cursor s) \<noteq> [] \<and>
    loads (strip (lines ! cursor s)) = Inr a \<and> cursor s + 1 < length lines \<and>
    loads (strip (lines ! (cursor s + 1))) = Inl JSONDecodeError"
  then show "loop_body loads lines s =
      s\<lparr>printed := printed s @ [Print (Msg_invalid_json (cursor s + 1))],
        cursor := cursor s + 1\<rparr>"
    by (simp add: invalid_body_step)
qed

text \<open>
  The instance: the first document line of the example is cut short. The first iteration
  drops the action with a warning and stops at line 2; the loop ends after all four lines
  with the second record only.
\<close>

theorem parse_loop_terminates_example:
  \<open>loop_running (readlines broken_body_ndjson) loop_start \<and>
   strip (readlines broken_body_ndjson ! 0) \<noteq> [] \<and>
   json_loads (strip (readlines broken_body_ndjson ! 0)) =
     Inr (JDict [(''index'', JDict [(''_index'', JStr ''a''), (''_id'', JStr ''1'')])]) \<and>
   json_loads (strip (readlines broken_body_ndjson ! 1)) = Inl JSONDecodeError \<and>
   loop_body json_loads (readlines broken_body_ndjson) loop_start =
     \<lparr>cursor = 1, documents = [], printed = [Print (Msg_invalid_json 1)], raised = None\<rparr> \<and>
   while_option (loop_running (readlines broken_body_ndjson))
     (loop_body json_loads (readlines broken_body_ndjson)) loop_start =
     Some \<lparr>cursor = 4, documents = [pair_doc example_pair2],
           printed = [Print (Msg_invalid_json 1), Print (Msg_invalid_json 2)],
           raised = None\<rparr>\<close>
proof -
  let ?lines = "readlines broken_body_ndjson"
  let ?a = "JDict [(''index'', JDict [(''_index'', JStr ''a''), (''_id'', JStr ''1'')])]"
  have run: "loop_running ?lines loop_start"
    by code_simp
  have h: "strip (?lines ! cursor loop_start) \<noteq> [] \<and>
      json_loads (strip (?lines ! cursor loop_start)) = Inr ?a \<and>
      cursor loop_start + 1 < length ?lines \<and>
      json_loads (strip (?lines ! (cursor loop_start + 1))) = Inl JSONDecodeError"
    by code_simp
  have c0: "cursor loop_start = 0"
    by (simp add: loop_start_def)
  have final: "parse_loop json_loads ?lines loop_start =
      \<lparr>cursor = 4, documents = [pair_doc example_pair2],
       printed = [Print (Msg_invalid_json 1), Print (Msg_invalid_json 2)], raised = None\<rparr>"
    by code_simp
  have hyp: "loop_running ?lines loop_start \<and> strip (?lines ! cursor loop_start) \<noteq> [] \<and>
      json_loads (strip (?lines ! cursor loop_start)) = Inr ?a \<and>
      cursor loop_start + 1 < length ?lines \<and>
      json_loads (strip (?lines ! (cursor loop_start + 1))) = Inl JSONDecodeError"
    using run h by (rule conjI)
  note T = parse_loop_terminates [where lines = "?lines" and loads = json_loads
      and s = loop_start and a = "?a"]
  from T [THEN conjunct1] obtain t where
    "while_option (loop_running ?lines) (loop_body json_loads ?lines) loop_start = Some t"
    and "t = parse_loop json_loads ?lines loop_start"
    by (elim exE conjE)
  then have w: "while_option (loop_running ?lines) (loop_body json_loads ?lines) loop_start =
      Some \<lparr>cursor = 4, documents = [pair_doc example_pair2],
       printed = [Print (Msg_invalid_json 1), Print (Msg_invalid_json 2)], raised = None\<rparr>"
    using final by simp
  have b: "loop_body json_loads ?lines loop_start =
      loop_start\<lparr>printed := printed loop_start @
         [Print (Msg_invalid_json (cursor loop_start + 1))],
        cursor := cursor loop_start + 1\<rparr>"
    using T [THEN conjunct2, THEN conjunct2, THEN conjunct2] hyp by (rule mp)
  then have b': "loop_body json_loads ?lines loop_start =
      \<lparr>cursor = 1, documents = [], printed = [Print (Msg_invalid_json 1)], raised = None\<rparr>"
    by (simp add: loop_start_def)
  from h have h': "strip (?lines ! 0) \<noteq> [] \<and> json_loads (strip (?lines ! 0)) = Inr ?a \<and>
      json_loads (strip (?lines ! 1)) = Inl JSONDecodeError"
    by (simp add: c0)
  from run h' b' w show ?thesis
    by (intro conjI) (elim conjE, assumption)+
qed

section \<open>Malformed and orphan action lines\<close>

text \<open>
  C4. A line that is not blank and that \<open>json.loads\<close> rejects with \<open>JSONDecodeError\<close>,
  met where the loop looks for an action line, costs one iteration: a warning with the
  1-based number of the line, no record, and the loop goes on with the next line as the
  candidate action line. Between the pairs of a well-formed stream such a line leaves
  the records as they are and adds that one warning.
\<close>

theorem malformed_action_line:
  assumes bad: "strip bad \<noteq> []" "loads (strip bad) = Inl JSONDecodeError"
  shows "(loop_running lines s \<and> lines ! cursor s = bad \<longrightarrow>
            parse_loop loads lines s =
            parse_loop loads lines
              (s\<lparr>printed := printed s @ [Print (Msg_invalid_json (cursor s + 1))],
                 cursor := cursor s + 1\<rparr>)) \<and>
         (list_all (well_formed loads) ps \<and> list_all (well_formed loads) qs \<and>
          fs filename = Inr content \<and>
          readlines content = stream_lines ps @ bad # stream_lines qs \<longrightarrow>
            parse_ndjson_for_bulk fs loads filename c =
            (Returned (Some (map pair_doc ps @ map pair_doc qs)), c,
             [Print (Msg_invalid_json (2 * length ps + 1)),
              Print (Msg_parsed (length ps + length qs) filename)]))"
proof (intro conjI impI)
  assume "loop_running lines s \<and> lines ! cursor s = bad"
  then show "parse_loop loads lines s =
        parse_loop loads lines
          (s\<lparr>printed := printed s @ [Print (Msg_invalid_json (cursor s + 1))],
             cursor := cursor s + 1\<rparr>)"
    using bad by (simp add: parse_loop_run invalid_step)
next
  assume "list_all (well_formed loads) ps \<and> list_all (well_formed loads) qs \<and>
          fs filename = Inr content \<and>
          readlines content = stream_lines ps @ bad # stream_lines qs"
  then have ps: "list_all (well_formed loads) ps" and qs: "list_all (well_formed loads) qs"
    and f: "fs filename = Inr content"
    and l: "readlines content = stream_lines ps @ bad # stream_lines qs"
    by simp_all
  have step: "loop_body loads (stream_lines ps @ bad # stream_lines qs)
                 \<lparr>cursor = 2 * length ps, documents = map pair_doc ps, printed = [],
                  raised = None\<rparr> =
               \<lparr>cursor = 2 * length ps + 1, documents = map pair_doc ps,
                printed = [Print (Msg_invalid_json (2 * length ps + 1))], raised = None\<rparr>"
    by (simp add: invalid_step nth_after_stream bad)
  have run: "parse_loop loads (readlines content) loop_start =
      \<lparr>cursor = 2 * length ps + 1 + 2 * length qs,
       documents = map pair_doc ps @ map pair_doc qs,
       printed = [Print (Msg_invalid_json (2 * length ps + 1))], raised = None\<rparr>"
    unfolding l using ps qs step by (rule stream_line_stream)
  show "parse_ndjson_for_bulk fs loads filename c =
        (Returned (Some (map pair_doc ps @ map pair_doc qs)), c,
         [Print (Msg_invalid_json (2 * length ps + 1)),
          Print (Msg_parsed (length ps + length qs) filename)])"
    using parse_ndjson_of_loop [where fs = fs and filename = filename and c = c, OF f run]
    by simp
qed

text \<open>
  The instance: \<open>not json\<close> as third line of the example gives both records and one
  warning that names line 3.
\<close>

theorem malformed_action_line_example:
  \<open>strip ''not json\<newline>'' \<noteq> [] \<and>
   json_loads (strip ''not json\<newline>'') = Inl JSONDecodeError \<and>
   readlines bad_action_ndjson =
     stream_lines [example_pair1] @ ''not json\<newline>'' # stream_lines [example_pair2] \<and>
   parse_ndjson_for_bulk (one_file ndjson_path bad_action_ndjson) json_loads ndjson_path () =
     (Returned (Some [pair_doc example_pair1, pair_doc example_pair2]), (),
      [Print (Msg_invalid_json 3), Print (Msg_parsed 2 ndjson_path)]) \<and>
   parse_loop json_loads (readlines bad_action_ndjson)
     \<lparr>cursor = 2, documents = [pair_doc example_pair1], printed = [], raised = None\<rparr> =
   parse_loop json_loads (readlines bad_action_ndjson)
     \<lparr>cursor = 3, documents = [pair_doc example_pair1],
      printed = [Print (Msg_invalid_json 3)], raised = None\<rparr>\<close>
proof -
  let ?lines = "readlines bad_action_ndjson"
  let ?s = "\<lparr>cursor = 2, documents = [pair_doc example_pair1], printed = [],
             raised = None\<rparr>"
  have b1: \<open>strip ''not json\<newline>'' \<noteq> []\<close>
    by code_simp
  have b2: \<open>json_loads (strip ''not json\<newline>'') = Inl JSONDecodeError\<close>
    by code_simp
  have run: \<open>loop_running ?lines ?s \<and> ?lines ! cursor ?s = ''not json\<newline>''\<close>
    by code_simp
  have wf: "list_all (well_formed json_loads) [example_pair1] \<and>
            list_all (well_formed json_loads) [example_pair2]"
    by code_simp
  have f: "one_file ndjson_path bad_action_ndjson ndjson_path = Inr bad_action_ndjson"
    by (simp add: one_file_def)
  have l: \<open>readlines bad_action_ndjson =
     stream_lines [example_pair1] @ ''not json\<newline>'' # stream_lines [example_pair2]\<close>
    by code_simp
  note T = malformed_action_line [where loads = json_loads and lines = "?lines" and s = "?s"
      and ps = "[example_pair1]" and qs = "[example_pair2]"
      and fs = "one_file ndjson_path bad_action_ndjson" and filename = ndjson_path
      and content = bad_action_ndjson and c = "()", OF b1 b2]
  have one: "parse_loop json_loads ?lines ?s =
      parse_loop json_loads ?lines
        (?s\<lparr>printed := printed ?s @ [Print (Msg_invalid_json (cursor ?s + 1))],
            cursor := cursor ?s + 1\<rparr>)"
    using T [THEN conjunct1] run by (rule mp)
  have hyp: \<open>list_all (well_formed json_loads) [example_pair1] \<and>
      list_all (well_formed json_loads) [example_pair2] \<and>
      one_file ndjson_path bad_action_ndjson ndjson_path = Inr bad_action_ndjson \<and>
      readlines bad_action_ndjson =
        stream_lines [example_pair1] @ ''not json\<newline>'' # stream_lines [example_pair2]\<close>
    using wf f l by simp
  have two:
    "parse_ndjson_for_bulk (one_file ndjson_path bad_action_ndjson) json_loads ndjson_path () =
     (Returned (Some (map pair_doc [example_pair1] @ map pair_doc [example_pair2])), (),
      [Print (Msg_invalid_json (2 * length [example_pair1] + 1)),
       Print (Msg_parsed (length [example_pair1] + length [example_pair2]) ndjson_path)])"
    using T [THEN conjunct2] hyp by (rule mp)
  from b1 b2 l one two show ?thesis by simp
qed

text \<open>
  C5. When the last line of the input is not blank, decodes, and is met where the loop
  looks for an action line, the loop prints exactly one warning for it (with its line
  number), emits no record for it and ends with the records it had. After well-formed
  pairs the function returns the records of those pairs, and the warning is the only
  one. The same holds when only blank lines follow that line (and the decoder rejects
  the empty text): the one warning is then the one about invalid JSON.
\<close>

theorem trailing_action_line:
  assumes a: "strip a \<noteq> []" "loads (strip a) = Inr v"
  shows "(loop_running lines s \<and> cursor s + 1 = length lines \<and> lines ! cursor s = a \<longrightarrow>
            parse_loop loads lines s =
            s\<lparr>printed := printed s @ [Print (Msg_missing_document (length lines))],
              cursor := length lines\<rparr>) \<and>
         (list_all (well_formed loads) ps \<and> fs filename = Inr content \<and>
          readlines content = stream_lines ps @ [a] \<longrightarrow>
            parse_ndjson_for_bulk fs loads filename c =
            (Returned (Some (map pair_doc ps)), c,
             [Print (Msg_missing_document (2 * length ps + 1)),
              Print (Msg_parsed (length ps) filename)])) \<and>
         (list_all (well_formed loads) ps \<and> blanks \<noteq> [] \<and>
          list_all (\<lambda>b. strip b = []) blanks \<and> loads [] = Inl JSONDecodeError \<and>
          fs filename = Inr content \<and>
          readlines content = stream_lines ps @ a # blanks \<longrightarrow>
            parse_ndjson_for_bulk fs loads filename c =
            (Returned (Some (map pair_doc ps)), c,
             [Print (Msg_invalid_json (2 * length ps + 1)),
              Print (Msg_parsed (length ps) filename)]))"
proof (intro conjI impI)
  assume "loop_running lines s \<and> cursor s + 1 = length lines \<and> lines ! cursor s = a"
  then have run: "loop_running lines s" and last: "cursor s + 1 = length lines"
    and at: "lines ! cursor s = a"
    by simp_all
  have "loop_body loads lines s =
        s\<lparr>printed := printed s @ [Print (Msg_missing_document (cursor s + 1))],
          cursor := cursor s + 1\<rparr>"
    using a at last by (intro orphan_step [where a = v]) simp_all
  then have "parse_loop loads lines s =
        parse_loop loads lines
          (s\<lparr>printed := printed s @ [Print (Msg_missing_document (length lines))],
             cursor := length lines\<rparr>)"
    using parse_loop_run [OF run, of loads] last by simp
  then show "parse_loop loads lines s =
        s\<lparr>printed := printed s @ [Print (Msg_missing_document (length lines))],
          cursor := length lines\<rparr>"
    by (simp add: parse_loop_stop loop_running_def)
next
  assume "list_all (well_formed loads) ps \<and> fs filename = Inr content \<and>
          readlines content = stream_lines ps @ [a]"
  then have ps: "list_all (well_formed loads) ps" and f: "fs filename = Inr content"
    and l: "readlines content = stream_lines ps @ [a]"
    by simp_all
  let ?lines = "stream_lines ps @ [a]"
  let ?s1 = "\<lparr>cursor = 2 * length ps, documents = map pair_doc ps, printed = [],
              raised = None\<rparr>"
  let ?s2 = "\<lparr>cursor = 2 * length ps + 1, documents = map pair_doc ps,
              printed = [Print (Msg_missing_document (2 * length ps + 1))], raised = None\<rparr>"
  have run1: "loop_running ?lines ?s1"
    by (simp add: loop_running_def length_stream_lines)
  have step: "loop_body loads ?lines ?s1 = ?s2"
    using a by (simp add: orphan_step [where a = v] nth_after_stream length_stream_lines)
  have "parse_loop loads ?lines loop_start = parse_loop loads ?lines ?s1"
    using ps by (rule stream_prefix)
  also have "\<dots> = parse_loop loads ?lines ?s2"
    using parse_loop_run [OF run1, of loads] step by simp
  also have "\<dots> = ?s2"
    by (simp add: parse_loop_stop loop_running_def length_stream_lines)
  finally have run: "parse_loop loads (readlines content) loop_start = ?s2"
    unfolding l .
  show "parse_ndjson_for_bulk fs loads filename c =
        (Returned (Some (map pair_doc ps)), c,
         [Print (Msg_missing_document (2 * length ps + 1)),
          Print (Msg_parsed (length ps) filename)])"
    using parse_ndjson_of_loop [where fs = fs and filename = filename and c = c, OF f run]
    by simp
next
  assume "list_all (well_formed loads) ps \<and> blanks \<noteq> [] \<and>
          list_all (\<lambda>b. strip b = []) blanks \<and> loads [] = Inl JSONDecodeError \<and>
          fs filename = Inr content \<and>
          readlines content = stream_lines ps @ a # blanks"
  then have ps: "list_all (well_formed loads) ps" and ne: "blanks \<noteq> []"
    and bl: "list_all (\<lambda>b. strip b = []) blanks" and dec: "loads [] = Inl JSONDecodeError"
    and f: "fs filename = Inr content"
    and l: "readlines content = stream_lines ps @ a # blanks"
    by simp_all
  let ?lines = "stream_lines ps @ a # blanks"
  let ?s1 = "\<lparr>cursor = 2 * length ps, documents = map pair_doc ps, printed = [],
              raised = None\<rparr>"
  let ?s2 = "\<lparr>cursor = 2 * length ps + 1, documents = map pair_doc ps,
              printed = [Print (Msg_invalid_json (2 * length ps + 1))], raised = None\<rparr>"
  have blank_at: "strip (?lines ! i) = []" if "2 * length ps + 1 \<le> i" "i < length ?lines" for i
  proof -
    from that have "?lines ! i = blanks ! (i - (2 * length ps + 1))"
      and "i - (2 * length ps + 1) < length blanks"
      by (simp_all add: nth_append length_stream_lines nth_Cons')
    with bl show ?thesis
      by (simp add: list_all_length)
  qed
  have run1: "loop_running ?lines ?s1"
    by (simp add: loop_running_def length_stream_lines)
  have next_blank: "strip (?lines ! (cursor ?s1 + 1)) = []"
    using ne by (intro blank_at) (simp_all add: length_stream_lines)
  have step: "loop_body loads ?lines ?s1 = ?s2"
    using a ne next_blank dec
    by (simp add: invalid_body_step [where a = v] nth_after_stream length_stream_lines)
  have "parse_loop loads ?lines loop_start = parse_loop loads ?lines ?s1"
    using ps by (rule stream_prefix)
  also have "\<dots> = parse_loop loads ?lines ?s2"
    using parse_loop_run [OF run1, of loads] step by simp
  also have "\<dots> = ?s2\<lparr>cursor := length ?lines\<rparr>"
    using blank_at by (intro blanks_loop) (simp_all add: length_stream_lines)
  finally have run: "parse_loop loads (readlines content) loop_start =
      ?s2\<lparr>cursor := length ?lines\<rparr>"
    unfolding l .
  show "parse_ndjson_for_bulk fs loads filename c =
        (Returned (Some (map pair_doc ps)), c,
         [Print (Msg_invalid_json (2 * length ps + 1)),
          Print (Msg_parsed (length ps) filename)])"
    using parse_ndjson_of_loop [where fs = fs and filename = filename and c = c, OF f run]
    by simp
qed

text \<open>
  The instances: the example without its last line gives the first record and one
  warning that names line 3, and so it does with an empty line after it.
\<close>

theorem trailing_action_line_example:
  \<open>strip (pair_action example_pair2) \<noteq> [] \<and>
   json_loads (strip (pair_action example_pair2)) =
     Inr (JDict [(''index'', JDict [(''_index'', JStr ''a''), (''_id'', JStr ''2'')])]) \<and>
   readlines trailing_action_ndjson =
     stream_lines [example_pair1] @ [pair_action example_pair2] \<and>
   parse_ndjson_for_bulk (one_file ndjson_path trailing_action_ndjson) json_loads
       ndjson_path () =
     (Returned (Some [pair_doc example_pair1]), (),
      [Print (Msg_missing_document 3), Print (Msg_parsed 1 ndjson_path)]) \<and>
   parse_loop json_loads (readlines trailing_action_ndjson)
     \<lparr>cursor = 2, documents = [pair_doc example_pair1], printed = [], raised = None\<rparr> =
     \<lparr>cursor = 3, documents = [pair_doc example_pair1],
      printed = [Print (Msg_missing_document 3)], raised = None\<rparr> \<and>
   parse_ndjson_for_bulk (one_file ndjson_path trailing_action_blank_ndjson) json_loads
       ndjson_path () =
     (Returned (Some [pair_doc example_pair1]), (),
      [Print (Msg_invalid_json 3), Print (Msg_parsed 1 ndjson_path)])\<close>
proof -
  let ?lines = "readlines trailing_action_ndjson"
  let ?s = "\<lparr>cursor = 2, documents = [pair_doc example_pair1], printed = [],
             raised = None\<rparr>"
  let ?v = "JDict [(''index'', JDict [(''_index'', JStr ''a''), (''_id'', JStr ''2'')])]"
  have a1: "strip (pair_action example_pair2) \<noteq> []"
    by code_simp
  have a2: "json_loads (strip (pair_action example_pair2)) = Inr ?v"
    by code_simp
  have run: "loop_running ?lines ?s \<and> cursor ?s + 1 = length ?lines \<and>
             ?lines ! cursor ?s = pair_action example_pair2"
    by code_simp
  have len: "length ?lines = 3"
    by code_simp
  have l: "readlines trailing_action_ndjson =
           stream_lines [example_pair1] @ [pair_action example_pair2]"
    by code_simp
  have hyp: "list_all (well_formed json_loads) [example_pair1] \<and>
      one_file ndjson_path trailing_action_ndjson ndjson_path = Inr trailing_action_ndjson \<and>
      readlines trailing_action_ndjson =
        stream_lines [example_pair1] @ [pair_action example_pair2]"
  proof (intro conjI)
    show "list_all (well_formed json_loads) [example_pair1]"
      by code_simp
    show "one_file ndjson_path trailing_action_ndjson ndjson_path = Inr trailing_action_ndjson"
      by (simp add: one_file_def)
    show "readlines trailing_action_ndjson =
          stream_lines [example_pair1] @ [pair_action example_pair2]"
      by (rule l)
  qed
  note T = trailing_action_line [where loads = json_loads and a = "pair_action example_pair2"
      and v = "?v" and lines = "?lines" and s = "?s" and ps = "[example_pair1]"
      and fs = "one_file ndjson_path trailing_action_ndjson" and filename = ndjson_path
      and content = trailing_action_ndjson and c = "()", OF a1 a2]
  have one: "parse_loop json_loads ?lines ?s =
      ?s\<lparr>printed := printed ?s @ [Print (Msg_missing_document (length ?lines))],
         cursor := length ?lines\<rparr>"
    using T [THEN conjunct1] run by (rule mp)
  have two:
    "parse_ndjson_for_bulk (one_file ndjson_path trailing_action_ndjson) json_loads
       ndjson_path () =
     (Returned (Some (map pair_doc [example_pair1])), (),
      [Print (Msg_missing_document (2 * length [example_pair1] + 1)),
       Print (Msg_parsed (length [example_pair1]) ndjson_path)])"
    using T [THEN conjunct2, THEN conjunct1] hyp by (rule mp)
  have hyp3: \<open>list_all (well_formed json_loads) [example_pair1] \<and> [''\<newline>''] \<noteq> [] \<and>
      list_all (\<lambda>b. strip b = []) [''\<newline>''] \<and> json_loads [] = Inl JSONDecodeError \<and>
      one_file ndjson_path trailing_action_blank_ndjson ndjson_path =
        Inr trailing_action_blank_ndjson \<and>
      readlines trailing_action_blank_ndjson =
        stream_lines [example_pair1] @ pair_action example_pair2 # [''\<newline>'']\<close>
    by code_simp
  have three:
    "parse_ndjson_for_bulk (one_file ndjson_path trailing_action_blank_ndjson) json_loads
       ndjson_path () =
     (Returned (Some (map pair_doc [example_pair1])), (),
      [Print (Msg_invalid_json (2 * length [example_pair1] + 1)),
       Print (Msg_parsed (length [example_pair1]) ndjson_path)])"
    using trailing_action_line [where loads = json_loads
        and a = "pair_action example_pair2" and v = "?v" and ps = "[example_pair1]"
        and fs = "one_file ndjson_path trailing_action_blank_ndjson"
        and filename = ndjson_path and content = trailing_action_blank_ndjson
        and c = "()" and blanks = "[[CHR 0x0A]]", OF a1 a2,
        THEN conjunct2, THEN conjunct2] hyp3
    by (rule mp)
  from a1 a2 l one two three show ?thesis
    unfolding len by simp
qed

section \<open>Action lines of another shape\<close>

lemma py_get_not_dict: "\<not> is_dict x \<Longrightarrow> py_get x k d = Inl AttributeError"
  by (cases x) simp_all

lemma attribute_step:
  assumes "strip (lines ! cursor s) \<noteq> []"
    and "loads (strip (lines ! cursor s)) = Inr a"
    and "cursor s + 1 < length lines"
    and "loads (strip (lines ! (cursor s + 1))) = Inr v"
    and "\<not> is_dict a \<or> (\<exists>kvs x. a = JDict kvs \<and> map_of kvs ''index'' = Some x \<and> \<not> is_dict x)"
  shows "loop_body loads lines s = s\<lparr>raised := Some AttributeError\<rparr>"
  using assms
  by (auto simp: loop_body_def loop_except_def Let_def py_get_not_dict)

text \<open>
  C10, as the code has it. An action line that decodes to an object whose \<open>index\<close>
  member is absent or is itself an object, followed by a line that decodes, gives a
  record without any warning, with \<open>None\<close> for each of \<open>_index\<close> and \<open>_id\<close> that is
  missing. An action line that decodes to anything but an object, or whose \<open>index\<close>
  member is not an object, followed by a line that decodes, raises \<open>AttributeError\<close>:
  the loop is left and the function prints an error and returns \<open>None\<close>, whatever it
  had parsed.
\<close>

theorem action_without_fields:
  assumes "loop_running lines s" and "cursor s + 1 < length lines"
    and "strip (lines ! cursor s) \<noteq> []"
    and "loads (strip (lines ! (cursor s + 1))) = Inr v"
  shows "(loads (strip (lines ! cursor s)) = Inr (JDict kvs) \<and>
          (map_of kvs ''index'' = None \<and> ivs = [] \<or> map_of kvs ''index'' = Some (JDict ivs)) \<longrightarrow>
            loop_body loads lines s =
            s\<lparr>documents := documents s @
                 [\<lparr>doc_index = (case map_of ivs ''_index'' of None \<Rightarrow> JNull | Some x \<Rightarrow> x),
                   doc_id = (case map_of ivs ''_id'' of None \<Rightarrow> JNull | Some x \<Rightarrow> x),
                   doc_source = v\<rparr>],
              cursor := cursor s + 2\<rparr>) \<and>
         (loads (strip (lines ! cursor s)) = Inr a \<and>
          (\<not> is_dict a \<or>
           (\<exists>jvs x. a = JDict jvs \<and> map_of jvs ''index'' = Some x \<and> \<not> is_dict x)) \<longrightarrow>
            parse_loop loads lines s = s\<lparr>raised := Some AttributeError\<rparr>) \<and>
         (loads (strip (lines ! cursor s)) = Inr a \<and>
          (\<not> is_dict a \<or>
           (\<exists>jvs x. a = JDict jvs \<and> map_of jvs ''index'' = Some x \<and> \<not> is_dict x)) \<and>
          s = \<lparr>cursor = 2 * length ps, documents = map pair_doc ps, printed = [],
               raised = None\<rparr> \<and>
          list_all (well_formed loads) ps \<and> fs filename = Inr content \<and>
          readlines content = lines \<and> take (2 * length ps) lines = stream_lines ps \<longrightarrow>
            parse_ndjson_for_bulk fs loads filename c =
            (Returned None, c, [Print Msg_ndjson_error]))"
proof (intro conjI impI)
  assume "loads (strip (lines ! cursor s)) = Inr (JDict kvs) \<and>
          (map_of kvs ''index'' = None \<and> ivs = [] \<or> map_of kvs ''index'' = Some (JDict ivs))"
  then show "loop_body loads lines s =
            s\<lparr>documents := documents s @
                 [\<lparr>doc_index = (case map_of ivs ''_index'' of None \<Rightarrow> JNull | Some x \<Rightarrow> x),
                   doc_id = (case map_of ivs ''_id'' of None \<Rightarrow> JNull | Some x \<Rightarrow> x),
                   doc_source = v\<rparr>],
              cursor := cursor s + 2\<rparr>"
    using assms by (auto simp: loop_body_def Let_def)
next
  assume h: "loads (strip (lines ! cursor s)) = Inr a \<and>
          (\<not> is_dict a \<or>
           (\<exists>jvs x. a = JDict jvs \<and> map_of jvs ''index'' = Some x \<and> \<not> is_dict x))"
  then have "loop_body loads lines s = s\<lparr>raised := Some AttributeError\<rparr>"
    using assms by (intro attribute_step [where a = a and v = v]) simp_all
  then show "parse_loop loads lines s = s\<lparr>raised := Some AttributeError\<rparr>"
    using parse_loop_run [OF assms(1), of loads]
    by (simp add: parse_loop_stop loop_running_def)
next
  assume h: "loads (strip (lines ! cursor s)) = Inr a \<and>
          (\<not> is_dict a \<or>
           (\<exists>jvs x. a = JDict jvs \<and> map_of jvs ''index'' = Some x \<and> \<not> is_dict x)) \<and>
          s = \<lparr>cursor = 2 * length ps, documents = map pair_doc ps, printed = [],
               raised = None\<rparr> \<and>
          list_all (well_formed loads) ps \<and> fs filename = Inr content \<and>
          readlines content = lines \<and> take (2 * length ps) lines = stream_lines ps"
  then have shape: "\<not> is_dict a \<or>
           (\<exists>jvs x. a = JDict jvs \<and> map_of jvs ''index'' = Some x \<and> \<not> is_dict x)"
    and act: "loads (strip (lines ! cursor s)) = Inr a"
    and s: "s = \<lparr>cursor = 2 * length ps, documents = map pair_doc ps, printed = [],
               raised = None\<rparr>"
    and ps: "list_all (well_formed loads) ps" and f: "fs filename = Inr content"
    and l: "readlines content = lines" and pre: "take (2 * length ps) lines = stream_lines ps"
    by blast+
  have body: "loop_body loads lines s = s\<lparr>raised := Some AttributeError\<rparr>"
    using assms act shape by (intro attribute_step [where a = a and v = v]) simp_all
  have stop: "parse_loop loads lines s = s\<lparr>raised := Some AttributeError\<rparr>"
    using parse_loop_run [OF assms(1), of loads] body
    by (simp add: parse_loop_stop loop_running_def)
  have "lines = stream_lines ps @ drop (2 * length ps) lines"
    using pre by (metis append_take_drop_id)
  then have "parse_loop loads lines loop_start = parse_loop loads lines s"
    unfolding s using stream_prefix [OF ps, of "drop (2 * length ps) lines"] by simp
  with stop s have run: "parse_loop loads (readlines content) loop_start =
      \<lparr>cursor = 2 * length ps, documents = map pair_doc ps, printed = [],
       raised = Some AttributeError\<rparr>"
    unfolding l by simp
  show "parse_ndjson_for_bulk fs loads filename c = (Returned None, c, [Print Msg_ndjson_error])"
    using parse_ndjson_of_raise [where fs = fs and filename = filename and c = c
        and e = AttributeError, OF f run]
    by simp
qed

text \<open>
  The instances: \<open>{}\<close> as action line gives a record with \<open>None\<close> as index and id and
  no warning; \<open>{"index":5}\<close> as action line after the first pair of the example makes
  the function return \<open>None\<close>.
\<close>

theorem action_without_fields_example:
  \<open>json_loads (strip (readlines empty_action_ndjson ! 0)) = Inr (JDict []) \<and>
   loop_body json_loads (readlines empty_action_ndjson) loop_start =
     \<lparr>cursor = 2,
      documents = [\<lparr>doc_index = JNull, doc_id = JNull, doc_source = JDict [(''f'', JInt 1)]\<rparr>],
      printed = [], raised = None\<rparr> \<and>
   json_loads (strip (readlines index_number_ndjson ! 2)) =
     Inr (JDict [(''index'', JInt 5)]) \<and>
   take 2 (readlines index_number_ndjson) = stream_lines [example_pair1] \<and>
   parse_loop json_loads (readlines index_number_ndjson)
     \<lparr>cursor = 2, documents = [pair_doc example_pair1], printed = [], raised = None\<rparr> =
     \<lparr>cursor = 2, documents = [pair_doc example_pair1], printed = [],
      raised = Some AttributeError\<rparr> \<and>
   parse_ndjson_for_bulk (one_file ndjson_path index_number_ndjson) json_loads ndjson_path () =
     (Returned None, (), [Print Msg_ndjson_error])\<close>
proof -
  let ?l1 = "readlines empty_action_ndjson"
  let ?v1 = "JDict [(''f'', JInt 1)]"
  have e1: "loop_running ?l1 loop_start" and e2: "cursor loop_start + 1 < length ?l1"
    and e3: "strip (?l1 ! cursor loop_start) \<noteq> []"
    and e4: "json_loads (strip (?l1 ! (cursor loop_start + 1))) = Inr ?v1"
    by code_simp+
  have e5: "json_loads (strip (?l1 ! cursor loop_start)) = Inr (JDict []) \<and>
      (map_of [] ''index'' = (None :: json option) \<and> ([] :: (string \<times> json) list) = [] \<or>
       map_of [] ''index'' = Some (JDict []))"
    by code_simp
  note A = action_without_fields [where loads = json_loads and lines = "?l1"
      and s = loop_start and v = "?v1" and kvs = "[]" and ivs = "[]", OF e1 e2 e3 e4]
  have a: "loop_body json_loads ?l1 loop_start =
      loop_start\<lparr>documents := documents loop_start @
           [\<lparr>doc_index = (case map_of [] ''_index'' of None \<Rightarrow> JNull | Some x \<Rightarrow> x),
             doc_id = (case map_of [] ''_id'' of None \<Rightarrow> JNull | Some x \<Rightarrow> x),
             doc_source = ?v1\<rparr>],
        cursor := cursor loop_start + 2\<rparr>"
    using A [THEN conjunct1] e5 by (rule mp)
  let ?l2 = "readlines index_number_ndjson"
  let ?s2 = "\<lparr>cursor = 2, documents = [pair_doc example_pair1], printed = [],
              raised = None\<rparr>"
  let ?v2 = "JDict [(''f'', JInt 2)]"
  let ?a2 = "JDict [(''index'', JInt 5)]"
  have i1: "loop_running ?l2 ?s2" and i2: "cursor ?s2 + 1 < length ?l2"
    and i3: "strip (?l2 ! cursor ?s2) \<noteq> []"
    and i4: "json_loads (strip (?l2 ! (cursor ?s2 + 1))) = Inr ?v2"
    by code_simp+
  have act: "json_loads (strip (?l2 ! cursor ?s2)) = Inr ?a2"
    by code_simp
  have shape: "\<not> is_dict ?a2 \<or>
      (\<exists>jvs x. ?a2 = JDict jvs \<and> map_of jvs ''index'' = Some x \<and> \<not> is_dict x)"
    by (rule disjI2, rule exI [where x = "[(''index'', JInt 5)]"],
        rule exI [where x = "JInt 5"]) simp
  have pre: "take (2 * length [example_pair1]) ?l2 = stream_lines [example_pair1]"
    by code_simp
  have wf: "list_all (well_formed json_loads) [example_pair1]"
    by code_simp
  have f: "one_file ndjson_path index_number_ndjson ndjson_path = Inr index_number_ndjson"
    by (simp add: one_file_def)
  have s2: "?s2 = \<lparr>cursor = 2 * length [example_pair1],
      documents = map pair_doc [example_pair1], printed = [], raised = None\<rparr>"
    by simp
  note B = action_without_fields [where loads = json_loads and lines = "?l2"
      and s = "?s2" and v = "?v2" and a = "?a2" and ps = "[example_pair1]"
      and fs = "one_file ndjson_path index_number_ndjson" and filename = ndjson_path
      and content = index_number_ndjson and c = "()", OF i1 i2 i3 i4]
  have b: "parse_loop json_loads ?l2 ?s2 = ?s2\<lparr>raised := Some AttributeError\<rparr>"
    using B [THEN conjunct2, THEN conjunct1] conjI [OF act shape] by (rule mp)
  have hyp: "json_loads (strip (?l2 ! cursor ?s2)) = Inr ?a2 \<and>
      (\<not> is_dict ?a2 \<or>
       (\<exists>jvs x. ?a2 = JDict jvs \<and> map_of jvs ''index'' = Some x \<and> \<not> is_dict x)) \<and>
      ?s2 = \<lparr>cursor = 2 * length [example_pair1],
        documents = map pair_doc [example_pair1], printed = [], raised = None\<rparr> \<and>
      list_all (well_formed json_loads) [example_pair1] \<and>
      one_file ndjson_path index_number_ndjson ndjson_path = Inr index_number_ndjson \<and>
      readlines index_number_ndjson = ?l2 \<and>
      take (2 * length [example_pair1]) ?l2 = stream_lines [example_pair1]"
    using act shape s2 wf f pre by (intro conjI refl)
  have c: "parse_ndjson_for_bulk (one_file ndjson_path index_number_ndjson) json_loads
      ndjson_path () = (Returned None, (), [Print Msg_ndjson_error])"
    using B [THEN conjunct2, THEN conjunct2] hyp by (rule mp)
  have c0: "cursor loop_start = 0"
    by (simp add: loop_start_def)
  from e5 have e5': "json_loads (strip (?l1 ! 0)) = Inr (JDict [])"
    by (simp add: c0)
  from a have a': "loop_body json_loads ?l1 loop_start =
     \<lparr>cursor = 2,
      documents = [\<lparr>doc_index = JNull, doc_id = JNull, doc_source = ?v1\<rparr>],
      printed = [], raised = None\<rparr>"
    by (simp add: loop_start_def)
  from act have act': "json_loads (strip (?l2 ! 2)) = Inr ?a2"
    by simp
  from pre have pre': "take 2 ?l2 = stream_lines [example_pair1]"
    by simp
  from b have b': "parse_loop json_loads ?l2 ?s2 =
     \<lparr>cursor = 2, documents = [pair_doc example_pair1], printed = [],
      raised = Some AttributeError\<rparr>"
    by simp
  from e5' a' act' pre' b' c show ?thesis
    by (intro conjI)
qed

text \<open>
  C10 as stated fails for a bare number: \<open>5\<close> is valid JSON, and as action line before a
  line that decodes it gives no record with \<open>None\<close> fields but ends the parse with
  \<open>None\<close> for the whole file.
\<close>

theorem bare_number_action_counterexample:
  \<open>readlines bare_number_ndjson = [''5\<newline>'', ''{"f":1}\<newline>''] \<and>
   json_loads (strip ''5\<newline>'') = Inr (JInt 5) \<and>
   json_loads (strip ''{"f":1}\<newline>'') = Inr (JDict [(''f'', JInt 1)]) \<and>
   parse_ndjson_for_bulk (one_file ndjson_path bare_number_ndjson) json_loads ndjson_path () =
     (Returned None, (), [Print Msg_ndjson_error])\<close>
  by code_simp

section \<open>Properties of create_index\<close>

text \<open>
  C7. \<open>create_index\<close> always returns a boolean to its caller, and its first call on
  the client is the existence check for the given name. If the index exists it is
  deleted, and then the index is created with the given name and mapping; the result is
  \<open>True\<close> when no call raised. As soon as the existence check, the deletion or the
  creation raises, the result is \<open>False\<close> and no further call is made: no call is
  repeated.
\<close>

theorem create_index_result:
  "(\<exists>b c' ev rest. create_index api es name mapping c = (Returned b, c', ev) \<and>
        filter is_call ev = Call (Req_exists name) # rest) \<and>
   (indices_exists api es name c = (Inl e, c1) \<longrightarrow>
      create_index api es name mapping c =
      (Returned False, c1, [Call (Req_exists name), Print Msg_index_failed])) \<and>
   (indices_exists api es name c = (Inr True, c1) \<and>
    indices_delete api es name c1 = (Inl e, c2) \<longrightarrow>
      create_index api es name mapping c =
      (Returned False, c2,
       [Call (Req_exists name), Print (Msg_index_exists name), Call (Req_delete name),
        Print Msg_index_failed])) \<and>
   (indices_exists api es name c = (Inr True, c1) \<and>
    indices_delete api es name c1 = (Inr (), c2) \<and>
    indices_create api es name mapping c2 = (Inl e, c3) \<longrightarrow>
      create_index api es name mapping c =
      (Returned False, c3,
       [Call (Req_exists name), Print (Msg_index_exists name), Call (Req_delete name),
        Print (Msg_index_deleted name), Call (Req_create name mapping),
        Print Msg_index_failed])) \<and>
   (indices_exists api es name c = (Inr True, c1) \<and>
    indices_delete api es name c1 = (Inr (), c2) \<and>
    indices_create api es name mapping c2 = (Inr (), c3) \<longrightarrow>
      create_index api es name mapping c =
      (Returned True, c3,
       [Call (Req_exists name), Print (Msg_index_exists name), Call (Req_delete name),
        Print (Msg_index_deleted name), Call (Req_create name mapping),
        Print (Msg_index_created name)])) \<and>
   (indices_exists api es name c = (Inr False, c1) \<and>
    indices_create api es name mapping c1 = (Inl e, c2) \<longrightarrow>
      create_index api es name mapping c =
      (Returned False, c2,
       [Call (Req_exists name), Call (Req_create name mapping), Print Msg_index_failed])) \<and>
   (indices_exists api es name c = (Inr False, c1) \<and>
    indices_create api es name mapping c1 = (Inr (), c2) \<longrightarrow>
      create_index api es name mapping c =
      (Returned True, c2,
       [Call (Req_exists name), Call (Req_create name mapping),
        Print (Msg_index_created name)]))"
proof (intro conjI impI)
  show "\<exists>b c' ev rest. create_index api es name mapping c = (Returned b, c', ev) \<and>
        filter is_call ev = Call (Req_exists name) # rest"
  proof -
    obtain r1 c1 where x: "indices_exists api es name c = (r1, c1)"
      by force
    obtain r2 c2 where d: "indices_delete api es name c1 = (r2, c2)"
      by force
    obtain r3 c3 where k: "indices_create api es name mapping c2 = (r3, c3)"
      by force
    obtain r4 c4 where k': "indices_create api es name mapping c1 = (r4, c4)"
      by force
    from x d k k' show ?thesis
      by (cases r1; cases r2; cases r3; cases r4)
        (auto simp: create_index_def try_except_def and_then_def call_def say_def
           returns_def)
  qed
qed (simp_all add: create_index_def try_except_def and_then_def call_def say_def returns_def)

text \<open>
  The instances. Run against a cluster that holds the index, \<open>create_index\<close> deletes
  and recreates it and returns \<open>True\<close>: the index then has the given mapping and no
  document. Run against an empty cluster it creates the index. When the existence check,
  the deletion or the creation raises, it returns \<open>False\<close> after that call.
\<close>

theorem create_index_example:
  "create_index (memory_api False False False True) example_client ''ubi_events''
     example_mapping stale_cluster =
     (Returned True, [(''ubi_events'', example_mapping, [])],
      [Call (Req_exists ''ubi_events''), Print (Msg_index_exists ''ubi_events''),
       Call (Req_delete ''ubi_events''), Print (Msg_index_deleted ''ubi_events''),
       Call (Req_create ''ubi_events'' example_mapping),
       Print (Msg_index_created ''ubi_events'')]) \<and>
   create_index (memory_api False False False True) example_client ''ubi_events''
     example_mapping [] =
     (Returned True, [(''ubi_events'', example_mapping, [])],
      [Call (Req_exists ''ubi_events''), Call (Req_create ''ubi_events'' example_mapping),
       Print (Msg_index_created ''ubi_events'')]) \<and>
   create_index (memory_api True False False True) example_client ''ubi_events''
     example_mapping stale_cluster =
     (Returned False, stale_cluster,
      [Call (Req_exists ''ubi_events''), Print Msg_index_failed]) \<and>
   create_index (memory_api False True False True) example_client ''ubi_events''
     example_mapping stale_cluster =
     (Returned False, stale_cluster,
      [Call (Req_exists ''ubi_events''), Print (Msg_index_exists ''ubi_events''),
       Call (Req_delete ''ubi_events''), Print Msg_index_failed]) \<and>
   create_index (memory_api False False True True) example_client ''ubi_events''
     example_mapping stale_cluster =
     (Returned False, [],
      [Call (Req_exists ''ubi_events''), Print (Msg_index_exists ''ubi_events''),
       Call (Req_delete ''ubi_events''), Print (Msg_index_deleted ''ubi_events''),
       Call (Req_create ''ubi_events'' example_mapping), Print Msg_index_failed]) \<and>
   create_index (memory_api False False True True) example_client ''ubi_events''
     example_mapping [] =
     (Returned False, [],
      [Call (Req_exists ''ubi_events''), Call (Req_create ''ubi_events'' example_mapping),
       Print Msg_index_failed])"
proof -
  let ?ok = "memory_api False False False True"
  let ?n = "''ubi_events''"
  have h5: "indices_exists ?ok example_client ?n stale_cluster = (Inr True, stale_cluster) \<and>
      indices_delete ?ok example_client ?n stale_cluster = (Inr (), []) \<and>
      indices_create ?ok example_client ?n example_mapping [] =
        (Inr (), [(''ubi_events'', example_mapping, [])])"
    by code_simp
  have r5: "create_index ?ok example_client ?n example_mapping stale_cluster =
     (Returned True, [(''ubi_events'', example_mapping, [])],
      [Call (Req_exists ?n), Print (Msg_index_exists ?n), Call (Req_delete ?n),
       Print (Msg_index_deleted ?n), Call (Req_create ?n example_mapping),
       Print (Msg_index_created ?n)])"
    using create_index_result [where api = "?ok" and es = example_client and name = "?n"
        and mapping = example_mapping and c = stale_cluster and ?c1.0 = stale_cluster
        and ?c2.0 = "[]" and ?c3.0 = "[(''ubi_events'', example_mapping, [])]",
        THEN conjunct2, THEN conjunct2, THEN conjunct2, THEN conjunct2, THEN conjunct1] h5
    by (rule mp)
  have h7: "indices_exists ?ok example_client ?n [] = (Inr False, []) \<and>
      indices_create ?ok example_client ?n example_mapping [] =
        (Inr (), [(''ubi_events'', example_mapping, [])])"
    by code_simp
  have r7: "create_index ?ok example_client ?n example_mapping [] =
     (Returned True, [(''ubi_events'', example_mapping, [])],
      [Call (Req_exists ?n), Call (Req_create ?n example_mapping),
       Print (Msg_index_created ?n)])"
    using create_index_result [where api = "?ok" and es = example_client and name = "?n"
        and mapping = example_mapping and c = "[]" and ?c1.0 = "[]"
        and ?c2.0 = "[(''ubi_events'', example_mapping, [])]",
        THEN conjunct2, THEN conjunct2, THEN conjunct2, THEN conjunct2, THEN conjunct2,
        THEN conjunct2] h7
    by (rule mp)
  let ?x = "memory_api True False False True"
  have h2: "indices_exists ?x example_client ?n stale_cluster =
      (Inl OtherException, stale_cluster)"
    by code_simp
  have r2: "create_index ?x example_client ?n example_mapping stale_cluster =
     (Returned False, stale_cluster, [Call (Req_exists ?n), Print Msg_index_failed])"
    using create_index_result [where api = "?x" and es = example_client and name = "?n"
        and mapping = example_mapping and c = stale_cluster and ?c1.0 = stale_cluster
        and e = OtherException, THEN conjunct2, THEN conjunct1] h2
    by (rule mp)
  let ?d = "memory_api False True False True"
  have h3: "indices_exists ?d example_client ?n stale_cluster = (Inr True, stale_cluster) \<and>
      indices_delete ?d example_client ?n stale_cluster = (Inl OtherException, stale_cluster)"
    by code_simp
  have r3: "create_index ?d example_client ?n example_mapping stale_cluster =
     (Returned False, stale_cluster,
      [Call (Req_exists ?n), Print (Msg_index_exists ?n), Call (Req_delete ?n),
       Print Msg_index_failed])"
    using create_index_result [where api = "?d" and es = example_client and name = "?n"
        and mapping = example_mapping and c = stale_cluster and ?c1.0 = stale_cluster
        and ?c2.0 = stale_cluster and e = OtherException,
        THEN conjunct2, THEN conjunct2, THEN conjunct1] h3
    by (rule mp)
  let ?k = "memory_api False False True True"
  have h4: "indices_exists ?k example_client ?n stale_cluster = (Inr True, stale_cluster) \<and>
      indices_delete ?k example_client ?n stale_cluster = (Inr (), []) \<and>
      indices_create ?k example_client ?n example_mapping [] = (Inl OtherException, [])"
    by code_simp
  have r4: "create_index ?k example_client ?n example_mapping stale_cluster =
     (Returned False, [],
      [Call (Req_exists ?n), Print (Msg_index_exists ?n), Call (Req_delete ?n),
       Print (Msg_index_deleted ?n), Call (Req_create ?n example_mapping),
       Print Msg_index_failed])"
    using create_index_result [where api = "?k" and es = example_client and name = "?n"
        and mapping = example_mapping and c = stale_cluster and ?c1.0 = stale_cluster
        and ?c2.0 = "[]" and ?c3.0 = "[]" and e = OtherException,
        THEN conjunct2, THEN conjunct2, THEN conjunct2, THEN conjunct1] h4
    by (rule mp)
  have h6: "indices_exists ?k example_client ?n [] = (Inr False, []) \<and>
      indices_create ?k example_client ?n example_mapping [] = (Inl OtherException, [])"
    by code_simp
  have r6: "create_index ?k example_client ?n example_mapping [] =
     (Returned False, [],
      [Call (Req_exists ?n), Call (Req_create ?n example_mapping), Print Msg_index_failed])"
    using create_index_result [where api = "?k" and es = example_client and name = "?n"
        and mapping = example_mapping and c = "[]" and ?c1.0 = "[]" and ?c2.0 = "[]"
        and e = OtherException,
        THEN conjunct2, THEN conjunct2, THEN conjunct2, THEN conjunct2, THEN conjunct2,
        THEN conjunct1] h6
    by (rule mp)
  from r5 r7 r2 r3 r4 r6 show ?thesis
    by (intro conjI)
qed

section \<open>Properties of bulk_index_documents\<close>

lemma loop_body_prints:
  "filter is_call (printed s) = [] \<Longrightarrow>
   filter is_call (printed (loop_body loads lines s)) = []"
  by (auto simp: loop_body_def loop_except_def Let_def split: sum.splits)

lemma parse_loop_prints:
  "filter is_call (printed s) = [] \<Longrightarrow>
   filter is_call (printed (parse_loop loads lines s)) = []"
proof (induction loads lines s rule: parse_loop.induct)
  case (1 loads lines s)
  show ?case
  proof (cases "loop_running lines s")
    case True
    with 1 show ?thesis
      by (simp add: parse_loop_run loop_body_prints)
  next
    case False
    with 1 show ?thesis
      by (simp add: parse_loop_stop)
  qed
qed

lemma parse_ndjson_prints:
  "filter is_call (snd (snd (parse_ndjson_for_bulk fs loads filename c))) = []"
proof (cases "fs filename")
  case (Inl e)
  then show ?thesis
    by (simp add: parse_ndjson_for_bulk_def try_except_def and_then_def answer_def
          say_def returns_def)
next
  case (Inr content)
  have p: "filter is_call (printed (parse_loop loads (readlines content) loop_start)) = []"
    by (rule parse_loop_prints) (simp add: loop_start_def)
  show ?thesis
  proof (cases "raised (parse_loop loads (readlines content) loop_start)")
    case None
    with p show ?thesis
      using parse_ndjson_of_loop [where fs = fs and filename = filename and c = c,
          OF Inr refl None]
      by simp
  next
    case (Some e)
    with p show ?thesis
      using parse_ndjson_of_raise [where fs = fs and filename = filename and c = c,
          OF Inr refl Some]
      by simp
  qed
qed

text \<open>
  C6. \<open>bulk_index_documents\<close> always returns a boolean. It returns \<open>False\<close> exactly
  when the parser returned \<open>None\<close>, when it returned an empty list, or when
  \<open>helpers.bulk\<close> raised. In the first two cases no call is made on the client, and the
  empty list is reported. When \<open>helpers.bulk\<close> returns a count and a list of failed
  items, the result is \<open>True\<close> whether or not the list is empty: the failures are only
  printed (their number, the first five, the number of the others).
\<close>

theorem bulk_index_documents_result:
  assumes "parse_ndjson_for_bulk fs loads filename c = (Returned parsed, c, pev)"
  shows "(\<exists>b c' ev. bulk_index_documents api es fs loads filename c = (Returned b, c', ev)) \<and>
   (fst (bulk_index_documents api es fs loads filename c) = Returned False \<longleftrightarrow>
      parsed = None \<or> parsed = Some [] \<or>
      (\<exists>docs e. parsed = Some docs \<and> fst (helpers_bulk api es docs 1000 c) = Inl e)) \<and>
   filter is_call pev = [] \<and>
   (parsed = None \<longrightarrow>
      bulk_index_documents api es fs loads filename c = (Returned False, c, pev)) \<and>
   (parsed = Some [] \<longrightarrow>
      bulk_index_documents api es fs loads filename c =
      (Returned False, c, pev @ [Print (Msg_no_documents filename)])) \<and>
   (parsed = Some docs \<and> docs \<noteq> [] \<and> helpers_bulk api es docs 1000 c = (Inl e, c') \<longrightarrow>
      bulk_index_documents api es fs loads filename c =
      (Returned False, c', pev @ [Call (Req_bulk docs 1000), Print Msg_bulk_error])) \<and>
   (parsed = Some docs \<and> docs \<noteq> [] \<and>
    helpers_bulk api es docs 1000 c = (Inr (n, failed_items), c') \<longrightarrow>
      bulk_index_documents api es fs loads filename c =
      (Returned True, c',
       pev @ Call (Req_bulk docs 1000) #
       (if failed_items = [] then []
        else Print (Msg_bulk_failures (length failed_items)) #
             map (\<lambda>failure. Print (Msg_bulk_failure failure)) (take 5 failed_items) @
             (if 5 < length failed_items
              then [Print (Msg_bulk_more (length failed_items - 5))] else [])) @
       [Print (Msg_bulk_indexed n)]))"
proof -
  note defs = bulk_index_documents_def and_then_def try_except_def call_def say_def
    returns_def report_failures_def
  have prints: "filter is_call pev = []"
    using parse_ndjson_prints [of fs loads filename c] assms by simp
  have none: "parsed = None \<Longrightarrow>
      bulk_index_documents api es fs loads filename c = (Returned False, c, pev)"
    using assms by (simp add: defs)
  have empty: "parsed = Some [] \<Longrightarrow>
      bulk_index_documents api es fs loads filename c =
      (Returned False, c, pev @ [Print (Msg_no_documents filename)])"
    using assms by (simp add: defs)
  have fails: "\<And>ds x cx. parsed = Some ds \<Longrightarrow> ds \<noteq> [] \<Longrightarrow>
      helpers_bulk api es ds 1000 c = (Inl x, cx) \<Longrightarrow>
      bulk_index_documents api es fs loads filename c =
      (Returned False, cx, pev @ [Call (Req_bulk ds 1000), Print Msg_bulk_error])"
    using assms by (simp add: defs)
  have indexed: "\<And>ds k fl cx. parsed = Some ds \<Longrightarrow> ds \<noteq> [] \<Longrightarrow>
      helpers_bulk api es ds 1000 c = (Inr (k, fl), cx) \<Longrightarrow>
      bulk_index_documents api es fs loads filename c =
      (Returned True, cx,
       pev @ Call (Req_bulk ds 1000) #
       (if fl = [] then []
        else Print (Msg_bulk_failures (length fl)) #
             map (\<lambda>failure. Print (Msg_bulk_failure failure)) (take 5 fl) @
             (if 5 < length fl then [Print (Msg_bulk_more (length fl - 5))] else [])) @
       [Print (Msg_bulk_indexed k)])"
    using assms by (simp add: defs)
  let ?cond = "parsed = None \<or> parsed = Some [] \<or>
       (\<exists>ds x. parsed = Some ds \<and> fst (helpers_bulk api es ds 1000 c) = Inl x)"
  obtain b cx ev where r: "bulk_index_documents api es fs loads filename c =
      (Returned b, cx, ev)" and b: "\<not> b \<longleftrightarrow> ?cond"
  proof (cases parsed)
    case None
    show ?thesis
      by (rule that [of False c pev]) (simp_all add: none [OF None] None)
  next
    case (Some ds)
    show ?thesis
    proof (cases "ds = []")
      case True
      with Some have e: "parsed = Some []"
        by simp
      show ?thesis
        by (rule that [of False c "pev @ [Print (Msg_no_documents filename)]"])
          (simp_all add: empty [OF e] e)
    next
      case False
      obtain r cx where h: "helpers_bulk api es ds 1000 c = (r, cx)"
        by force
      show ?thesis
      proof (cases r)
        case (Inl x)
        with h have hx: "helpers_bulk api es ds 1000 c = (Inl x, cx)"
          by simp
        show ?thesis
          by (rule that [of False cx "pev @ [Call (Req_bulk ds 1000), Print Msg_bulk_error]"])
            (simp_all add: fails [OF Some False hx] Some hx)
      next
        case (Inr kf)
        obtain k fl where "kf = (k, fl)"
          by force
        with h Inr have hk: "helpers_bulk api es ds 1000 c = (Inr (k, fl), cx)"
          by simp
        show ?thesis
          by (rule that [OF indexed [OF Some False hk]]) (simp add: Some False hk)
      qed
    qed
  qed
  have result: "(\<exists>b c' ev. bulk_index_documents api es fs loads filename c =
        (Returned b, c', ev)) \<and>
      (fst (bulk_index_documents api es fs loads filename c) = Returned False \<longleftrightarrow> ?cond)"
  proof
    show "\<exists>b c' ev. bulk_index_documents api es fs loads filename c = (Returned b, c', ev)"
      using r by blast
    show "fst (bulk_index_documents api es fs loads filename c) = Returned False \<longleftrightarrow> ?cond"
      using b by (simp add: r)
  qed
  from result prints none empty fails [of docs e c'] indexed [of docs n failed_items c']
  show ?thesis
    by (intro conjI impI) (simp_all only: simp_thms)
qed

text \<open>
  The instances, on the two-pair example and an empty cluster (no index \<open>a\<close>). With a
  library that lists the rejected documents, both documents fail and the result is
  \<open>True\<close>; with the library's default, which raises, the result is \<open>False\<close>. An empty
  file and a missing file give \<open>False\<close> without any call.
\<close>

theorem bulk_index_documents_example:
  "bulk_index_documents (memory_api False False False False) example_client
     (one_file ndjson_path example_ndjson) json_loads ndjson_path [] =
     (Returned True, [],
      [Print (Msg_parsed 2 ndjson_path),
       Call (Req_bulk [pair_doc example_pair1, pair_doc example_pair2] 1000),
       Print (Msg_bulk_failures 2),
       Print (Msg_bulk_failure (rejection (pair_doc example_pair1))),
       Print (Msg_bulk_failure (rejection (pair_doc example_pair2))),
       Print (Msg_bulk_indexed 0)]) \<and>
   bulk_index_documents (memory_api False False False True) example_client
     (one_file ndjson_path example_ndjson) json_loads ndjson_path [] =
     (Returned False, [],
      [Print (Msg_parsed 2 ndjson_path),
       Call (Req_bulk [pair_doc example_pair1, pair_doc example_pair2] 1000),
       Print Msg_bulk_error]) \<and>
   bulk_index_documents (memory_api False False False True) example_client
     (one_file ndjson_path []) json_loads ndjson_path [] =
     (Returned False, [],
      [Print (Msg_parsed 0 ndjson_path), Print (Msg_no_documents ndjson_path)]) \<and>
   bulk_index_documents (memory_api False False False True) example_client
     (one_file mapping_path []) json_loads ndjson_path [] =
     (Returned False, [], [Print (Msg_ndjson_not_found ndjson_path)])"
proof -
  let ?docs = "[pair_doc example_pair1, pair_doc example_pair2]"
  let ?lenient = "memory_api False False False False"
  let ?strict = "memory_api False False False True"
  let ?fs = "one_file ndjson_path example_ndjson"
  have p: "parse_ndjson_for_bulk ?fs json_loads ndjson_path ([] :: cluster) =
      (Returned (Some ?docs), [], [Print (Msg_parsed 2 ndjson_path)])"
    by code_simp
  have h1: "Some ?docs = Some ?docs \<and> ?docs \<noteq> [] \<and>
      helpers_bulk ?lenient example_client ?docs 1000 [] =
        (Inr (0, [rejection (pair_doc example_pair1), rejection (pair_doc example_pair2)]), [])"
    by code_simp
  have r1: "bulk_index_documents ?lenient example_client ?fs json_loads ndjson_path [] =
      (Returned True, [],
       [Print (Msg_parsed 2 ndjson_path)] @ Call (Req_bulk ?docs 1000) #
       (if [rejection (pair_doc example_pair1), rejection (pair_doc example_pair2)] = []
        then []
        else Print (Msg_bulk_failures
               (length [rejection (pair_doc example_pair1),
                        rejection (pair_doc example_pair2)])) #
             map (\<lambda>failure. Print (Msg_bulk_failure failure))
               (take 5 [rejection (pair_doc example_pair1),
                        rejection (pair_doc example_pair2)]) @
             (if 5 < length [rejection (pair_doc example_pair1),
                             rejection (pair_doc example_pair2)]
              then [Print (Msg_bulk_more
                      (length [rejection (pair_doc example_pair1),
                               rejection (pair_doc example_pair2)] - 5))]
              else [])) @
       [Print (Msg_bulk_indexed 0)])"
    using bulk_index_documents_result [where api = "?lenient" and es = example_client
        and fs = "?fs" and filename = ndjson_path and docs = "?docs" and n = 0
        and failed_items = "[rejection (pair_doc example_pair1),
                             rejection (pair_doc example_pair2)]"
        and c' = "[]", OF p,
        THEN conjunct2, THEN conjunct2, THEN conjunct2, THEN conjunct2, THEN conjunct2,
        THEN conjunct2] h1
    by (rule mp)
  have h2: "Some ?docs = Some ?docs \<and> ?docs \<noteq> [] \<and>
      helpers_bulk ?strict example_client ?docs 1000 [] = (Inl OtherException, [])"
    by code_simp
  have r2: "bulk_index_documents ?strict example_client ?fs json_loads ndjson_path [] =
      (Returned False, [],
       [Print (Msg_parsed 2 ndjson_path)] @
       [Call (Req_bulk ?docs 1000), Print Msg_bulk_error])"
    using bulk_index_documents_result [where api = "?strict" and es = example_client
        and fs = "?fs" and filename = ndjson_path and docs = "?docs"
        and e = OtherException and c' = "[]", OF p,
        THEN conjunct2, THEN conjunct2, THEN conjunct2, THEN conjunct2, THEN conjunct2,
        THEN conjunct1] h2
    by (rule mp)
  have p3: "parse_ndjson_for_bulk (one_file ndjson_path []) json_loads ndjson_path
      ([] :: cluster) = (Returned (Some []), [], [Print (Msg_parsed 0 ndjson_path)])"
    by code_simp
  have r3: "bulk_index_documents ?strict example_client (one_file ndjson_path [])
      json_loads ndjson_path [] =
      (Returned False, [],
       [Print (Msg_parsed 0 ndjson_path)] @ [Print (Msg_no_documents ndjson_path)])"
    using bulk_index_documents_result [where api = "?strict" and es = example_client
        and fs = "one_file ndjson_path []" and filename = ndjson_path, OF p3,
        THEN conjunct2, THEN conjunct2, THEN conjunct2, THEN conjunct2, THEN conjunct1]
      refl
    by (rule mp)
  have p4: "parse_ndjson_for_bulk (one_file mapping_path []) json_loads ndjson_path
      ([] :: cluster) = (Returned None, [], [Print (Msg_ndjson_not_found ndjson_path)])"
    by code_simp
  have r4: "bulk_index_documents ?strict example_client (one_file mapping_path [])
      json_loads ndjson_path [] =
      (Returned False, [], [Print (Msg_ndjson_not_found ndjson_path)])"
    using bulk_index_documents_result [where api = "?strict" and es = example_client
        and fs = "one_file mapping_path []" and filename = ndjson_path, OF p4,
        THEN conjunct2, THEN conjunct2, THEN conjunct2, THEN conjunct1]
      refl
    by (rule mp)
  from r1 r2 r3 r4 show ?thesis
    by simp
qed

section \<open>Who ends the process\<close>

lemma connect_returns:
  "\<exists>r c' ev. connect_to_elasticsearch api host api_key c = (Returned r, c', ev)"
proof (cases "construct api host api_key 60")
  case (Some e)
  then show ?thesis
    by (simp add: connect_to_elasticsearch_def try_except_def and_then_def call_def
          say_def returns_def)
next
  case None
  let ?es = "\<lparr>client_host = host, client_api_key = api_key, client_request_timeout = 60\<rparr>"
  obtain r c1 where p: "ping api ?es c = (r, c1)"
    by force
  show ?thesis
  proof (cases r)
    case (Inl e)
    with None p show ?thesis
      by (simp add: connect_to_elasticsearch_def try_except_def and_then_def call_def
            say_def returns_def)
  next
    case (Inr alive)
    with None p show ?thesis
      by (cases alive)
        (simp_all add: connect_to_elasticsearch_def try_except_def and_then_def call_def
           say_def returns_def)
  qed
qed

lemma create_index_returns:
  "\<exists>b c' ev. create_index api es name mapping c = (Returned b, c', ev)"
proof -
  obtain r1 c1 where x: "indices_exists api es name c = (r1, c1)"
    by force
  obtain r2 c2 where d: "indices_delete api es name c1 = (r2, c2)"
    by force
  obtain r3 c3 where k: "indices_create api es name mapping c2 = (r3, c3)"
    by force
  obtain r4 c4 where k': "indices_create api es name mapping c1 = (r4, c4)"
    by force
  from x d k k' show ?thesis
    by (cases r1; cases r2; cases r3; cases r4)
      (auto simp: create_index_def try_except_def and_then_def call_def say_def
         returns_def)
qed

lemma bulk_index_documents_returns:
  "\<exists>b c' ev. bulk_index_documents api es fs loads filename c = (Returned b, c', ev)"
proof -
  note defs = bulk_index_documents_def and_then_def try_except_def call_def say_def
    returns_def report_failures_def
  obtain parsed pev where p: "parse_ndjson_for_bulk fs loads filename c =
      (Returned parsed, c, pev)"
    using parse_ndjson_returns [of fs loads filename c] by blast
  show ?thesis
  proof (cases parsed)
    case None
    with p show ?thesis by (auto simp: defs)
  next
    case (Some ds)
    show ?thesis
    proof (cases "ds = []")
      case True
      with Some p show ?thesis by (auto simp: defs)
    next
      case False
      obtain r cx where h: "helpers_bulk api es ds 1000 c = (r, cx)"
        by force
      show ?thesis
      proof (cases r)
        case (Inl x)
        with h Some False p show ?thesis by (auto simp: defs)
      next
        case (Inr kf)
        with h Some False p show ?thesis by (cases kf) (auto simp: defs)
      qed
    qed
  qed
qed

text \<open>
  C8, as the code has it. The connector, the provisioner, the parser and the submitter
  return a value to their caller whatever the file system, the decoder and the client
  library do: no exception (of class \<open>Exception\<close>) leaves them and none ends the
  process. The mapping loader returns the mapping when it can read and decode the file,
  and ends the process itself, with exit status 1, when the file is not found or is not
  valid JSON.
\<close>

theorem components_return:
  "(\<exists>r c' ev. connect_to_elasticsearch api host api_key c = (Returned r, c', ev)) \<and>
   (\<exists>b c' ev. create_index api es name mapping c = (Returned b, c', ev)) \<and>
   (\<exists>r ev. parse_ndjson_for_bulk fs loads filename c = (Returned r, c, ev)) \<and>
   (\<exists>b c' ev. bulk_index_documents api es fs loads filename c = (Returned b, c', ev)) \<and>
   (fs filename = Inl FileNotFoundError \<longrightarrow>
      read_mapping_file fs loads filename c =
      (Exited 1, c, [Print (Msg_mapping_not_found filename)])) \<and>
   (fs filename = Inr content \<and> loads (universal_newlines content) = Inl JSONDecodeError \<longrightarrow>
      read_mapping_file fs loads filename c =
      (Exited 1, c, [Print (Msg_mapping_invalid_json filename)])) \<and>
   (fs filename = Inr content \<and> loads (universal_newlines content) = Inr m \<longrightarrow>
      read_mapping_file fs loads filename c =
      (Returned m, c, [Print (Msg_mapping_read filename)]))"
proof (intro conjI impI)
  show "\<exists>r c' ev. connect_to_elasticsearch api host api_key c = (Returned r, c', ev)"
    by (rule connect_returns)
  show "\<exists>b c' ev. create_index api es name mapping c = (Returned b, c', ev)"
    by (rule create_index_returns)
  show "\<exists>r ev. parse_ndjson_for_bulk fs loads filename c = (Returned r, c, ev)"
    by (rule parse_ndjson_returns)
  show "\<exists>b c' ev. bulk_index_documents api es fs loads filename c = (Returned b, c', ev)"
    by (rule bulk_index_documents_returns)
qed (simp_all add: read_mapping_file_def try_except_def and_then_def answer_def say_def
       returns_def exits_def)

text \<open>
  The instances: the mapping loader on a missing file, on a file that is cut short and
  on a file that holds a mapping.
\<close>

theorem components_return_example:
  "read_mapping_file (one_file ndjson_path example_ndjson) json_loads mapping_path () =
     (Exited 1, (), [Print (Msg_mapping_not_found mapping_path)]) \<and>
   json_loads (universal_newlines broken_mapping_text) = Inl JSONDecodeError \<and>
   read_mapping_file (one_file mapping_path broken_mapping_text) json_loads mapping_path () =
     (Exited 1, (), [Print (Msg_mapping_invalid_json mapping_path)]) \<and>
   json_loads (universal_newlines example_mapping_text) = Inr example_mapping \<and>
   read_mapping_file (one_file mapping_path example_mapping_text) json_loads mapping_path () =
     (Returned example_mapping, (), [Print (Msg_mapping_read mapping_path)])"
proof -
  have h1: "one_file ndjson_path example_ndjson mapping_path = Inl FileNotFoundError"
    by code_simp
  have r1: "read_mapping_file (one_file ndjson_path example_ndjson) json_loads
      mapping_path () = (Exited 1, (), [Print (Msg_mapping_not_found mapping_path)])"
    using components_return [where fs = "one_file ndjson_path example_ndjson"
        and loads = json_loads and filename = mapping_path and c = "()",
        THEN conjunct2, THEN conjunct2, THEN conjunct2, THEN conjunct2, THEN conjunct1] h1
    by (rule mp)
  have d2: "json_loads (universal_newlines broken_mapping_text) = Inl JSONDecodeError"
    by code_simp
  have h2: "one_file mapping_path broken_mapping_text mapping_path = Inr broken_mapping_text \<and>
      json_loads (universal_newlines broken_mapping_text) = Inl JSONDecodeError"
    using d2 by (simp add: one_file_def)
  have r2: "read_mapping_file (one_file mapping_path broken_mapping_text) json_loads
      mapping_path () = (Exited 1, (), [Print (Msg_mapping_invalid_json mapping_path)])"
    using components_return [where fs = "one_file mapping_path broken_mapping_text"
        and loads = json_loads and filename = mapping_path and c = "()"
        and content = broken_mapping_text,
        THEN conjunct2, THEN conjunct2, THEN conjunct2, THEN conjunct2, THEN conjunct2,
        THEN conjunct1] h2
    by (rule mp)
  have d3: "json_loads (universal_newlines example_mapping_text) = Inr example_mapping"
    by code_simp
  have h3: "one_file mapping_path example_mapping_text mapping_path =
        Inr example_mapping_text \<and>
      json_loads (universal_newlines example_mapping_text) = Inr example_mapping"
    using d3 by (simp add: one_file_def)
  have r3: "read_mapping_file (one_file mapping_path example_mapping_text) json_loads
      mapping_path () = (Returned example_mapping, (), [Print (Msg_mapping_read mapping_path)])"
    using components_return [where fs = "one_file mapping_path example_mapping_text"
        and loads = json_loads and filename = mapping_path and c = "()"
        and content = example_mapping_text and m = example_mapping,
        THEN conjunct2, THEN conjunct2, THEN conjunct2, THEN conjunct2, THEN conjunct2,
        THEN conjunct2] h3
    by (rule mp)
  from r1 d2 r2 d3 r3 show ?thesis
    by (intro conjI)
qed

text \<open>
  C8 as stated fails for the mapping loader: called with its default file name where no
  such file exists, \<open>read_mapping_file\<close> does not return to its caller but calls
  \<open>sys.exit(1)\<close>; so does a file that is not valid JSON.
\<close>

theorem read_mapping_file_exits_counterexample:
  "read_mapping_file (one_file ndjson_path example_ndjson) json_loads ''mapping.json'' () =
     (Exited 1, (), [Print (Msg_mapping_not_found ''mapping.json'')]) \<and>
   read_mapping_file (one_file ''mapping.json'' broken_mapping_text) json_loads
     ''mapping.json'' () =
     (Exited 1, (), [Print (Msg_mapping_invalid_json ''mapping.json'')])"
  by code_simp

section \<open>Properties of main\<close>

text \<open>
  C9. When \<open>ES_HOST\<close> or \<open>API_KEY\<close> is unset or empty, \<open>main\<close> ends the process with
  exit status 1 after its messages: no client is constructed and no call is made on the
  client library, and the cluster is as it was.
\<close>

theorem main_requires_environment:
  assumes "getenv ''ES_HOST'' = None \<or> getenv ''ES_HOST'' = Some [] \<or>
           getenv ''API_KEY'' = None \<or> getenv ''API_KEY'' = Some []"
  shows "exit_status (fst (main api fs loads getenv c)) = 1 \<and>
         filter is_call (snd (snd (main api fs loads getenv c))) = [] \<and>
         (main api fs loads getenv c =
            (Exited 1, c, [Print Msg_starting, Print Msg_no_host, Print Msg_host_example]) \<or>
          main api fs loads getenv c =
            (Exited 1, c, [Print Msg_starting, Print Msg_no_key, Print Msg_key_example]))"
proof -
  have "unset (getenv ''ES_HOST'') \<or> unset (getenv ''API_KEY'')"
    using assms by (auto simp: unset_def)
  then have "main api fs loads getenv c =
            (Exited 1, c, [Print Msg_starting, Print Msg_no_host, Print Msg_host_example]) \<or>
          main api fs loads getenv c =
            (Exited 1, c, [Print Msg_starting, Print Msg_no_key, Print Msg_key_example])"
    by (auto simp: main_def and_then_def say_def exits_def)
  then show ?thesis
    by auto
qed

text \<open>
  The instances: no variable set; only \<open>ES_HOST\<close> set; \<open>ES_HOST\<close> empty; \<open>API_KEY\<close>
  empty. Each run ends with exit status 1 and without a call on the client library.
\<close>

theorem main_requires_environment_example:
  "exit_status (fst (main (memory_api False False False True) project_files json_loads
     (env_of []) stale_cluster)) = 1 \<and>
   filter is_call (snd (snd (main (memory_api False False False True) project_files
     json_loads (env_of []) stale_cluster))) = [] \<and>
   exit_status (fst (main (memory_api False False False True) project_files json_loads
     (env_of [(''ES_HOST'', ''https://localhost:9200'')]) stale_cluster)) = 1 \<and>
   filter is_call (snd (snd (main (memory_api False False False True) project_files
     json_loads (env_of [(''ES_HOST'', ''https://localhost:9200'')]) stale_cluster))) = [] \<and>
   exit_status (fst (main (memory_api False False False True) project_files json_loads
     (env_of [(''ES_HOST'', ''''), (''API_KEY'', ''key'')]) stale_cluster)) = 1 \<and>
   filter is_call (snd (snd (main (memory_api False False False True) project_files
     json_loads (env_of [(''ES_HOST'', ''''), (''API_KEY'', ''key'')]) stale_cluster))) = [] \<and>
   exit_status (fst (main (memory_api False False False True) project_files json_loads
     (env_of [(''ES_HOST'', ''https://localhost:9200''), (''API_KEY'', '''')])
     stale_cluster)) = 1 \<and>
   filter is_call (snd (snd (main (memory_api False False False True) project_files
     json_loads (env_of [(''ES_HOST'', ''https://localhost:9200''), (''API_KEY'', '''')])
     stale_cluster))) = []"
proof -
  let ?api = "memory_api False False False True"
  let ?e1 = "env_of []"
  let ?e2 = "env_of [(''ES_HOST'', ''https://localhost:9200'')]"
  let ?e3 = "env_of [(''ES_HOST'', ''''), (''API_KEY'', ''key'')]"
  let ?e4 = "env_of [(''ES_HOST'', ''https://localhost:9200''), (''API_KEY'', '''')]"
  have h1: "?e1 ''ES_HOST'' = None \<or> ?e1 ''ES_HOST'' = Some [] \<or>
      ?e1 ''API_KEY'' = None \<or> ?e1 ''API_KEY'' = Some []"
    by (simp add: env_of_def)
  have h2: "?e2 ''ES_HOST'' = None \<or> ?e2 ''ES_HOST'' = Some [] \<or>
      ?e2 ''API_KEY'' = None \<or> ?e2 ''API_KEY'' = Some []"
    by (simp add: env_of_def)
  have h3: "?e3 ''ES_HOST'' = None \<or> ?e3 ''ES_HOST'' = Some [] \<or>
      ?e3 ''API_KEY'' = None \<or> ?e3 ''API_KEY'' = Some []"
    by (simp add: env_of_def)
  have h4: "?e4 ''ES_HOST'' = None \<or> ?e4 ''ES_HOST'' = Some [] \<or>
      ?e4 ''API_KEY'' = None \<or> ?e4 ''API_KEY'' = Some []"
    by (simp add: env_of_def)
  note r1 = main_requires_environment [where getenv = "?e1" and api = "?api"
      and fs = project_files and loads = json_loads and c = stale_cluster, OF h1]
  note r2 = main_requires_environment [where getenv = "?e2" and api = "?api"
      and fs = project_files and loads = json_loads and c = stale_cluster, OF h2]
  note r3 = main_requires_environment [where getenv = "?e3" and api = "?api"
      and fs = project_files and loads = json_loads and c = stale_cluster, OF h3]
  note r4 = main_requires_environment [where getenv = "?e4" and api = "?api"
      and fs = project_files and loads = json_loads and c = stale_cluster, OF h4]
  show ?thesis
    by (intro conjI r1 [THEN conjunct1] r1 [THEN conjunct2, THEN conjunct1]
        r2 [THEN conjunct1] r2 [THEN conjunct2, THEN conjunct1]
        r3 [THEN conjunct1] r3 [THEN conjunct2, THEN conjunct1]
        r4 [THEN conjunct1] r4 [THEN conjunct2, THEN conjunct1])
qed

text \<open>
  For comparison, a run with both variables set, against the cluster in memory: the
  client is constructed and pinged, both indices are provisioned, the documents are
  submitted, and \<open>main\<close> returns (exit status 0).
\<close>

lemma main_full_run_example:
  "main (memory_api False False False True) project_files json_loads
     (env_of [(''ES_HOST'', ''https://localhost:9200''), (''API_KEY'', ''key'')])
     stale_cluster =
   (Returned (),
    [(''ubi_events'', example_mapping,
      [\<lparr>doc_index = JStr ''ubi_events'', doc_id = JStr ''1'',
        doc_source = JDict [(''f'', JInt 1)]\<rparr>]),
     (''ubi_queries'', example_mapping, [])],
    [Print Msg_starting, Print (Msg_connecting ''https://localhost:9200''),
     Call (Req_construct ''https://localhost:9200'' ''key'' 60), Call Req_ping,
     Print (Msg_connected ''https://localhost:9200''),
     Print (Msg_mapping_read mapping_path), Print (Msg_mapping_read mapping_path),
     Call (Req_exists ''ubi_events''), Print (Msg_index_exists ''ubi_events''),
     Call (Req_delete ''ubi_events''), Print (Msg_index_deleted ''ubi_events''),
     Call (Req_create ''ubi_events'' example_mapping),
     Print (Msg_index_created ''ubi_events''),
     Call (Req_exists ''ubi_queries''), Call (Req_create ''ubi_queries'' example_mapping),
     Print (Msg_index_created ''ubi_queries''),
     Print (Msg_parsed 1 ndjson_path),
     Call (Req_bulk [\<lparr>doc_index = JStr ''ubi_events'', doc_id = JStr ''1'',
                      doc_source = JDict [(''f'', JInt 1)]\<rparr>] 1000),
     Print (Msg_bulk_indexed 1), Print Msg_completed])"
  by code_simp

end
